theory Spec2Isabelle
  imports
    Main
    "HOL-Library.Monad_Syntax"
    "HOL-Library.AList"
    "HOL-Library.Word"
    "HOL-Library.Signed_Division"
begin

section \<open>Conventions of the embedding\<close>

text \<open>
  The caches of the repository (\<^verbatim>\<open>LruCache\<close>, \<^verbatim>\<open>LruKCache\<close>, \<^verbatim>\<open>LfuCache\<close> with its
  \<^verbatim>\<open>FreqList\<close>, \<^verbatim>\<open>ArcLfuPart\<close>, \<^verbatim>\<open>ArcCache\<close>) are embedded member function by member
  function, one HOL definition per C++ function, with the object passed in and returned.

  \<^item> A \<^verbatim>\<open>std::shared_ptr\<close> to a node is a \<open>ptr\<close>: \<open>None\<close> is \<^verbatim>\<open>nullptr\<close>, \<open>Some a\<close> is
    the node stored at address \<open>a\<close> of the object's node store (a list of nodes, a new
    node taking the next free address).
  \<^item> A function that dereferences a null pointer or an end iterator has undefined
    behaviour in C++; the model returns \<open>None\<close> there, and \<open>Some\<close> of its results
    otherwise.
  \<^item> \<^verbatim>\<open>std::unordered_map\<close> is an association list with distinct keys: \<open>map_of\<close> is
    \<^verbatim>\<open>find\<close>, \<open>AList.update\<close> is \<^verbatim>\<open>m[k] = v\<close>, \<open>AList.delete\<close> is \<^verbatim>\<open>erase\<close>, \<open>length\<close> is
    \<^verbatim>\<open>size()\<close>, and the order of the list is the order in which a range-for visits it.
  \<^item> \<^verbatim>\<open>int\<close> is \<open>int\<close> (signed overflow, undefined in C++, is not modelled) and a
    \<^verbatim>\<open>size_t\<close> counter is \<open>nat\<close>; where the source compares or divides an \<^verbatim>\<open>int\<close> with
    a \<^verbatim>\<open>size_t\<close> the conversion of the usual arithmetic conversions is written out. The
    capacities that \<^verbatim>\<open>ArcCache\<close> shifts between its halves are 64-bit words.
  \<^item> The mutex of every class is left out: each member function is one atomic step.
  \<^item> A member function \<^verbatim>\<open>C::f\<close> is the constant \<open>C_f\<close>, a constructor is \<open>C_new\<close>, and a
    data member \<^verbatim>\<open>m_\<close> is a record field with the member's name behind a prefix for its
    class (\<open>lru_capacity\<close> is \<^verbatim>\<open>LruCache::capacity_\<close>, \<open>ln_next\<close> is \<^verbatim>\<open>LruNode::next_\<close>,
    \<open>fn_\<close> the node of \<^verbatim>\<open>FreqList\<close>, \<open>fl_\<close> \<^verbatim>\<open>FreqList\<close>, \<open>lfu_\<close> \<^verbatim>\<open>LfuCache\<close>, \<open>an_\<close>
    \<^verbatim>\<open>ArcNode\<close>, \<open>alfu_\<close> \<^verbatim>\<open>ArcLfuPart\<close>, \<open>alru_\<close> \<^verbatim>\<open>ArcLruPart\<close>, \<open>arc_\<close> \<^verbatim>\<open>ArcCache\<close>,
    \<open>lruk_\<close> \<^verbatim>\<open>LruKCache\<close>), since one theory cannot hold two fields of one name. The
    node store of an object is the field \<open>..._heap\<close>.

  The sources do not compile as they stand. Where a name is misspelt the model reads the
  declaration it can only mean: \<^verbatim>\<open>LruNodeType\<close> is \<^verbatim>\<open>LruNodetype\<close>, the undeclared
  \<^verbatim>\<open>node\<close> of \<^verbatim>\<open>LruCache::put\<close> is \<^verbatim>\<open>it->second\<close>, \<^verbatim>\<open>dummyTail_->next\<close> in
  \<^verbatim>\<open>LruCache::insertNode\<close> is the member \<^verbatim>\<open>next_\<close> of the tail sentinel, \<^verbatim>\<open>pre\<close> in the
  constructor of the \<^verbatim>\<open>FreqList\<close> node is \<^verbatim>\<open>prev\<close>, and \<^verbatim>\<open>Node node = it->second\<close> in
  \<^verbatim>\<open>handleOverMaxAvgNum\<close> is a \<^verbatim>\<open>NodePtr\<close>, the constructor of \<^verbatim>\<open>LruKCache\<close> initialises
  its base class \<^verbatim>\<open>LruCache<Key, Value>\<close>, \<^verbatim>\<open>LruCache<Key, Value::put\<close> in \<^verbatim>\<open>LruKCache::put\<close>
  is \<^verbatim>\<open>LruCache<Key, Value>::put\<close>, the parameter \<^verbatim>\<open>Key, key\<close> of \<^verbatim>\<open>ArcLfuPart::checkGhost\<close>
  is \<^verbatim>\<open>Key key\<close>, and the semicolon inside the condition of the \<^verbatim>\<open>if\<close> in \<^verbatim>\<open>ArcCache::put\<close>
  is dropped. Nothing is added to a function body: a call the source does not make is not
  made by the model.
\<close>

type_synonym ptr = "nat option"

definition deref :: "'n list \<Rightarrow> ptr \<Rightarrow> 'n option" where
  "deref h p = (case p of None \<Rightarrow> None
                | Some a \<Rightarrow> if a < length h then Some (h ! a) else None)"

definition modify :: "ptr \<Rightarrow> ('n \<Rightarrow> 'n) \<Rightarrow> 'n list \<Rightarrow> 'n list option" where
  "modify p f h = (case p of None \<Rightarrow> None
                   | Some a \<Rightarrow> if a < length h then Some (h[a := f (h ! a)]) else None)"

definition alloc :: "'n \<Rightarrow> 'n list \<Rightarrow> ptr \<times> 'n list" where
  "alloc n h = (Some (length h), h @ [n])"

text \<open>The value an \<^verbatim>\<open>int\<close> has after conversion to \<^verbatim>\<open>size_t\<close> (64 bits), and the value a
  \<^verbatim>\<open>size_t\<close> has after conversion to \<^verbatim>\<open>int\<close> (32 bits, two's complement).\<close>

definition size_t_of_int :: "int \<Rightarrow> nat" where
  "size_t_of_int i = nat (i mod 2 ^ 64)"

definition int_of_size_t :: "nat \<Rightarrow> int" where
  "int_of_size_t n = (int n + 2 ^ 31) mod 2 ^ 32 - 2 ^ 31"


section \<open>LruCache (src/LruCache.h)\<close>

record ('k, 'v) LruNode =
  ln_key :: 'k
  ln_value :: 'v
  ln_accessCount :: nat
  ln_prev :: ptr
  ln_next :: ptr

definition LruNode_new :: "'k \<Rightarrow> 'v \<Rightarrow> ('k, 'v) LruNode" where
  "LruNode_new k v =
     \<lparr>ln_key = k, ln_value = v, ln_accessCount = 1, ln_prev = None, ln_next = None\<rparr>"

record ('k, 'v) LruCache =
  lru_capacity :: int
  lru_nodeMap :: "('k \<times> ptr) list"
  lru_dummyHead :: ptr
  lru_dummyTail :: ptr
  lru_heap :: "('k, 'v) LruNode list"

text \<open>The constructor stores the capacity and nothing else: it does not call
  \<^verbatim>\<open>initList\<close>, so both sentinels are null in a constructed cache.\<close>

definition LruCache_new :: "int \<Rightarrow> ('k, 'v) LruCache" where
  "LruCache_new capacity =
     \<lparr>lru_capacity = capacity, lru_nodeMap = [], lru_dummyHead = None,
      lru_dummyTail = None, lru_heap = []\<rparr>"

text \<open>\<^verbatim>\<open>initList\<close>; \<open>dk\<close> and \<open>dv\<close> are \<^verbatim>\<open>Key()\<close> and \<^verbatim>\<open>Value()\<close>.\<close>

definition LruCache_initList :: "'k \<Rightarrow> 'v \<Rightarrow> ('k, 'v) LruCache \<Rightarrow> ('k, 'v) LruCache option" where
  "LruCache_initList dk dv c =
     (let (hd, h1) = alloc (LruNode_new dk dv) (lru_heap c);
          (tl, h2) = alloc (LruNode_new dk dv) h1
      in do {
        h3 \<leftarrow> modify hd (\<lambda>n. n\<lparr>ln_next := tl\<rparr>) h2;
        h4 \<leftarrow> modify tl (\<lambda>n. n\<lparr>ln_prev := hd\<rparr>) h3;
        Some (c\<lparr>lru_dummyHead := hd, lru_dummyTail := tl, lru_heap := h4\<rparr>)
      })"

definition LruCache_removeNode :: "ptr \<Rightarrow> ('k, 'v) LruCache \<Rightarrow> ('k, 'v) LruCache option" where
  "LruCache_removeNode node c =
     do {
       n \<leftarrow> deref (lru_heap c) node;
       h1 \<leftarrow> modify (ln_prev n) (\<lambda>p. p\<lparr>ln_next := ln_next n\<rparr>) (lru_heap c);
       n1 \<leftarrow> deref h1 node;
       h2 \<leftarrow> modify (ln_next n1) (\<lambda>p. p\<lparr>ln_prev := ln_prev n1\<rparr>) h1;
       Some (c\<lparr>lru_heap := h2\<rparr>)
     }"

definition LruCache_insertNode :: "ptr \<Rightarrow> ('k, 'v) LruCache \<Rightarrow> ('k, 'v) LruCache option" where
  "LruCache_insertNode node c =
     do {
       t \<leftarrow> deref (lru_heap c) (lru_dummyTail c);
       h1 \<leftarrow> modify node (\<lambda>n. n\<lparr>ln_next := ln_next t\<rparr>) (lru_heap c);
       t1 \<leftarrow> deref h1 (lru_dummyTail c);
       h2 \<leftarrow> modify node (\<lambda>n. n\<lparr>ln_prev := ln_prev t1\<rparr>) h1;
       t2 \<leftarrow> deref h2 (lru_dummyTail c);
       h3 \<leftarrow> modify (ln_prev t2) (\<lambda>p. p\<lparr>ln_next := node\<rparr>) h2;
       h4 \<leftarrow> modify (lru_dummyTail c) (\<lambda>p. p\<lparr>ln_prev := node\<rparr>) h3;
       Some (c\<lparr>lru_heap := h4\<rparr>)
     }"

definition LruCache_evictLeastRecent :: "('k, 'v) LruCache \<Rightarrow> ('k, 'v) LruCache option" where
  "LruCache_evictLeastRecent c =
     do {
       hd \<leftarrow> deref (lru_heap c) (lru_dummyHead c);
       let leastRecent = ln_next hd;
       c1 \<leftarrow> LruCache_removeNode leastRecent c;
       n \<leftarrow> deref (lru_heap c1) leastRecent;
       Some (c1\<lparr>lru_nodeMap := AList.delete (ln_key n) (lru_nodeMap c1)\<rparr>)
     }"

definition LruCache_move2MostRecent :: "ptr \<Rightarrow> ('k, 'v) LruCache \<Rightarrow> ('k, 'v) LruCache option" where
  "LruCache_move2MostRecent node c =
     do {
       c1 \<leftarrow> LruCache_removeNode node c;
       LruCache_insertNode node c1
     }"

definition LruCache_updateExistingNode ::
    "ptr \<Rightarrow> 'v \<Rightarrow> ('k, 'v) LruCache \<Rightarrow> ('k, 'v) LruCache option" where
  "LruCache_updateExistingNode node v c =
     do {
       h1 \<leftarrow> modify node (\<lambda>n. n\<lparr>ln_value := v\<rparr>) (lru_heap c);
       LruCache_move2MostRecent node (c\<lparr>lru_heap := h1\<rparr>)
     }"

text \<open>\<^verbatim>\<open>addNewNode\<close> compares \<^verbatim>\<open>nodeMap_.size()\<close> with the \<^verbatim>\<open>int\<close> capacity as
  \<^verbatim>\<open>size_t\<close>. No function of the class calls it.\<close>

definition LruCache_addNewNode :: "'k \<Rightarrow> 'v \<Rightarrow> ('k, 'v) LruCache \<Rightarrow> ('k, 'v) LruCache option" where
  "LruCache_addNewNode key v c =
     do {
       c1 \<leftarrow> (if length (lru_nodeMap c) \<ge> size_t_of_int (lru_capacity c)
              then LruCache_evictLeastRecent c else Some c);
       let (newNode, h1) = alloc (LruNode_new key v) (lru_heap c1);
       c2 \<leftarrow> LruCache_insertNode newNode (c1\<lparr>lru_heap := h1\<rparr>);
       Some (c2\<lparr>lru_nodeMap := AList.update key newNode (lru_nodeMap c2)\<rparr>)
     }"

text \<open>\<^verbatim>\<open>put\<close>: after the branch for a key that is found the body ends; for a key that is
  not found nothing is done.\<close>

definition LruCache_put :: "'k \<Rightarrow> 'v \<Rightarrow> ('k, 'v) LruCache \<Rightarrow> ('k, 'v) LruCache option" where
  "LruCache_put key v c =
     (if lru_capacity c \<le> 0 then Some c
      else case map_of (lru_nodeMap c) key of
             Some node \<Rightarrow> LruCache_updateExistingNode node v c
           | None \<Rightarrow> Some c)"

text \<open>\<^verbatim>\<open>bool get(Key key, Value& value)\<close>: the result is the returned flag, the out
  parameter after the call (\<open>out\<close> before it) and the cache.\<close>

definition LruCache_get ::
    "'k \<Rightarrow> 'v \<Rightarrow> ('k, 'v) LruCache \<Rightarrow> (bool \<times> 'v \<times> ('k, 'v) LruCache) option" where
  "LruCache_get key out c =
     (case map_of (lru_nodeMap c) key of
        Some node \<Rightarrow>
          do {
            c1 \<leftarrow> LruCache_move2MostRecent node c;
            n \<leftarrow> deref (lru_heap c1) node;
            Some (True, ln_value n, c1)
          }
      | None \<Rightarrow> Some (False, out, c))"

text \<open>\<^verbatim>\<open>Value get(Key key)\<close>; \<open>dv\<close> is the value-initialised \<^verbatim>\<open>Value value{}\<close>.\<close>

definition LruCache_get_value ::
    "'v \<Rightarrow> 'k \<Rightarrow> ('k, 'v) LruCache \<Rightarrow> ('v \<times> ('k, 'v) LruCache) option" where
  "LruCache_get_value dv key c =
     do {
       (found, v, c1) \<leftarrow> LruCache_get key dv c;
       Some (v, c1)
     }"

definition LruCache_remove :: "'k \<Rightarrow> ('k, 'v) LruCache \<Rightarrow> ('k, 'v) LruCache option" where
  "LruCache_remove key c =
     (case map_of (lru_nodeMap c) key of
        Some node \<Rightarrow>
          do {
            c1 \<leftarrow> LruCache_removeNode node c;
            Some (c1\<lparr>lru_nodeMap := AList.delete key (lru_nodeMap c1)\<rparr>)
          }
      | None \<Rightarrow> Some c)"


section \<open>LruKCache (src/unnamed/part_000)\<close>

text \<open>\<^verbatim>\<open>LruKCache\<close> derives from \<^verbatim>\<open>LruCache<Key, Value>\<close> (the main cache, \<open>lruk_main\<close>)
  and owns a \<^verbatim>\<open>LruCache<Key, size_t>\<close> of observation counts. Its \<^verbatim>\<open>put\<close> compares the
  value read from the main cache with \<^verbatim>\<open>""\<close>, so \<^verbatim>\<open>Value\<close> is a string here.\<close>

record 'k LruKCache =
  lruk_main :: "('k, string) LruCache"
  lruk_k :: int
  lruk_historyList :: "('k, nat) LruCache"

definition LruKCache_new :: "int \<Rightarrow> int \<Rightarrow> int \<Rightarrow> 'k LruKCache" where
  "LruKCache_new capacity historyCapacity k =
     \<lparr>lruk_main = LruCache_new capacity, lruk_k = k,
      lruk_historyList = LruCache_new historyCapacity\<rparr>"

definition LruKCache_get :: "'k \<Rightarrow> 'k LruKCache \<Rightarrow> (string \<times> 'k LruKCache) option" where
  "LruKCache_get key c =
     do {
       (historyCount, h1) \<leftarrow> LruCache_get_value 0 key (lruk_historyList c);
       h2 \<leftarrow> LruCache_put key (historyCount + 1) h1;
       (v, m1) \<leftarrow> LruCache_get_value [] key (lruk_main c);
       Some (v, c\<lparr>lruk_main := m1, lruk_historyList := h2\<rparr>)
     }"

text \<open>\<^verbatim>\<open>put\<close>: the branch for a key found in the main cache has no \<^verbatim>\<open>return\<close>; the
  statements on the history follow it in every case.\<close>

definition LruKCache_put :: "'k \<Rightarrow> string \<Rightarrow> 'k LruKCache \<Rightarrow> 'k LruKCache option" where
  "LruKCache_put key v c =
     do {
       (cur, m1) \<leftarrow> LruCache_get_value [] key (lruk_main c);
       m2 \<leftarrow> (if cur \<noteq> [] then LruCache_put key v m1 else Some m1);
       (historyCount, h1) \<leftarrow> LruCache_get_value 0 key (lruk_historyList c);
       h2 \<leftarrow> LruCache_put key (historyCount + 1) h1;
       if historyCount + 1 \<ge> size_t_of_int (lruk_k c)
       then do {
         h3 \<leftarrow> LruCache_remove key h2;
         m3 \<leftarrow> LruCache_put key v m2;
         Some (c\<lparr>lruk_main := m3, lruk_historyList := h3\<rparr>)
       }
       else Some (c\<lparr>lruk_main := m2, lruk_historyList := h2\<rparr>)
     }"


section \<open>FreqList and LfuCache (src/unnamed/part_001)\<close>

record ('k, 'v) FreqNode =
  fn_freq :: int
  fn_key :: 'k
  fn_value :: 'v
  fn_prev :: ptr
  fn_next :: ptr

text \<open>The two constructors of the node. \<^verbatim>\<open>Node()\<close> leaves key and value
  default-initialised: \<open>dk\<close> and \<open>dv\<close> stand for what they hold.\<close>

definition FreqNode_default :: "'k \<Rightarrow> 'v \<Rightarrow> ('k, 'v) FreqNode" where
  "FreqNode_default dk dv =
     \<lparr>fn_freq = 1, fn_key = dk, fn_value = dv, fn_prev = None, fn_next = None\<rparr>"

definition FreqNode_new :: "'k \<Rightarrow> 'v \<Rightarrow> ('k, 'v) FreqNode" where
  "FreqNode_new key v =
     \<lparr>fn_freq = 1, fn_key = key, fn_value = v, fn_prev = None, fn_next = None\<rparr>"

record FreqList =
  fl_freq :: int
  fl_dummyHead :: ptr
  fl_dummyTail :: ptr

definition FreqList_new ::
    "'k \<Rightarrow> 'v \<Rightarrow> int \<Rightarrow> ('k, 'v) FreqNode list \<Rightarrow> (FreqList \<times> ('k, 'v) FreqNode list) option" where
  "FreqList_new dk dv n h =
     (let (hd, h1) = alloc (FreqNode_default dk dv) h;
          (tl, h2) = alloc (FreqNode_default dk dv) h1
      in do {
        h3 \<leftarrow> modify hd (\<lambda>x. x\<lparr>fn_next := tl\<rparr>) h2;
        h4 \<leftarrow> modify tl (\<lambda>x. x\<lparr>fn_prev := hd\<rparr>) h3;
        Some (\<lparr>fl_freq = n, fl_dummyHead = hd, fl_dummyTail = tl\<rparr>, h4)
      })"

definition FreqList_isEmpty :: "FreqList \<Rightarrow> ('k, 'v) FreqNode list \<Rightarrow> bool option" where
  "FreqList_isEmpty l h =
     do {
       hd \<leftarrow> deref h (fl_dummyHead l);
       Some (fn_next hd = fl_dummyTail l)
     }"

text \<open>\<^verbatim>\<open>addNode\<close>: its last assignment is to \<^verbatim>\<open>dummyHead_->prev\<close>.\<close>

definition FreqList_addNode ::
    "FreqList \<Rightarrow> ptr \<Rightarrow> ('k, 'v) FreqNode list \<Rightarrow> ('k, 'v) FreqNode list option" where
  "FreqList_addNode l node h =
     (if node = None \<or> fl_dummyHead l = None \<or> fl_dummyTail l = None then Some h
      else do {
        t \<leftarrow> deref h (fl_dummyTail l);
        h1 \<leftarrow> modify node (\<lambda>n. n\<lparr>fn_prev := fn_prev t\<rparr>) h;
        h2 \<leftarrow> modify node (\<lambda>n. n\<lparr>fn_next := fl_dummyTail l\<rparr>) h1;
        t2 \<leftarrow> deref h2 (fl_dummyTail l);
        h3 \<leftarrow> modify (fn_prev t2) (\<lambda>p. p\<lparr>fn_next := node\<rparr>) h2;
        modify (fl_dummyHead l) (\<lambda>p. p\<lparr>fn_prev := node\<rparr>) h3
      })"

definition FreqList_removeNode ::
    "FreqList \<Rightarrow> ptr \<Rightarrow> ('k, 'v) FreqNode list \<Rightarrow> ('k, 'v) FreqNode list option" where
  "FreqList_removeNode l node h =
     (if node = None \<or> fl_dummyHead l = None \<or> fl_dummyTail l = None then Some h
      else do {
        n \<leftarrow> deref h node;
        if fn_prev n = None \<or> fn_next n = None then Some h
        else do {
          h1 \<leftarrow> modify (fn_prev n) (\<lambda>p. p\<lparr>fn_next := fn_next n\<rparr>) h;
          n1 \<leftarrow> deref h1 node;
          h2 \<leftarrow> modify (fn_next n1) (\<lambda>p. p\<lparr>fn_prev := fn_prev n1\<rparr>) h1;
          modify node (\<lambda>x. x\<lparr>fn_prev := None, fn_next := None\<rparr>) h2
        }
      })"

definition FreqList_getFirstNode :: "FreqList \<Rightarrow> ('k, 'v) FreqNode list \<Rightarrow> ptr option" where
  "FreqList_getFirstNode l h =
     do {
       hd \<leftarrow> deref h (fl_dummyHead l);
       Some (fn_next hd)
     }"

text \<open>\<^verbatim>\<open>freqToFreqList_\<close> maps a frequency to a \<^verbatim>\<open>FreqList*\<close>. The class stores only
  pointers it got from \<^verbatim>\<open>new\<close>; a null pointer enters the map only where
  \<^verbatim>\<open>freqToFreqList_[f]->...\<close> is evaluated for a missing \<open>f\<close>, and is dereferenced at once,
  which the model answers with \<open>None\<close>.\<close>

record ('k, 'v) LfuCache =
  lfu_capacity :: int
  lfu_minFreq :: int
  lfu_maxAvgNum :: int
  lfu_curAvgNum :: int
  lfu_curTotalNum :: int
  lfu_nodeMap :: "('k \<times> ptr) list"
  lfu_freqToFreqList :: "(int \<times> FreqList) list"
  lfu_heap :: "('k, 'v) FreqNode list"

definition INT8_MAX :: int where
  "INT8_MAX = 127"

definition LfuCache_new :: "int \<Rightarrow> int \<Rightarrow> ('k, 'v) LfuCache" where
  "LfuCache_new capacity maxAvgNum =
     \<lparr>lfu_capacity = capacity, lfu_minFreq = INT8_MAX, lfu_maxAvgNum = maxAvgNum,
      lfu_curAvgNum = 0, lfu_curTotalNum = 0, lfu_nodeMap = [],
      lfu_freqToFreqList = [], lfu_heap = []\<rparr>"

text \<open>\<^verbatim>\<open>put\<close>: for a key that is found the value is assigned and the function returns;
  for a key that is not found the body ends without a statement.\<close>

definition LfuCache_put :: "'k \<Rightarrow> 'v \<Rightarrow> ('k, 'v) LfuCache \<Rightarrow> ('k, 'v) LfuCache option" where
  "LfuCache_put key v c =
     (if lfu_capacity c = 0 then Some c
      else case map_of (lfu_nodeMap c) key of
             Some node \<Rightarrow>
               do {
                 h1 \<leftarrow> modify node (\<lambda>n. n\<lparr>fn_value := v\<rparr>) (lfu_heap c);
                 Some (c\<lparr>lfu_heap := h1\<rparr>)
               }
           | None \<Rightarrow> Some c)"

text \<open>\<^verbatim>\<open>bool get(Key key, Value& value)\<close>: for a key that is found the only statement
  is \<^verbatim>\<open>return true\<close>.\<close>

definition LfuCache_get ::
    "'k \<Rightarrow> 'v \<Rightarrow> ('k, 'v) LfuCache \<Rightarrow> (bool \<times> 'v \<times> ('k, 'v) LfuCache) option" where
  "LfuCache_get key out c =
     (case map_of (lfu_nodeMap c) key of
        Some node \<Rightarrow> Some (True, out, c)
      | None \<Rightarrow> Some (False, out, c))"

text \<open>\<^verbatim>\<open>Value get(Key key)\<close>; \<open>dv\<close> is what the default-initialised \<^verbatim>\<open>Value value\<close>
  holds.\<close>

definition LfuCache_get_value ::
    "'v \<Rightarrow> 'k \<Rightarrow> ('k, 'v) LfuCache \<Rightarrow> ('v \<times> ('k, 'v) LfuCache) option" where
  "LfuCache_get_value dv key c =
     do {
       (found, v, c1) \<leftarrow> LfuCache_get key dv c;
       Some (v, c1)
     }"

definition LfuCache_purge :: "('k, 'v) LfuCache \<Rightarrow> ('k, 'v) LfuCache option" where
  "LfuCache_purge c = Some (c\<lparr>lfu_nodeMap := [], lfu_freqToFreqList := []\<rparr>)"

definition LfuCache_removeFromFreqList ::
    "ptr \<Rightarrow> ('k, 'v) LfuCache \<Rightarrow> ('k, 'v) LfuCache option" where
  "LfuCache_removeFromFreqList node c =
     (if node = None then Some c
      else do {
        n \<leftarrow> deref (lfu_heap c) node;
        case map_of (lfu_freqToFreqList c) (fn_freq n) of
          Some l \<Rightarrow>
            do {
              h1 \<leftarrow> FreqList_removeNode l node (lfu_heap c);
              Some (c\<lparr>lfu_heap := h1\<rparr>)
            }
        | None \<Rightarrow> Some c
      })"

text \<open>\<^verbatim>\<open>addToFreqList\<close>: the iterator \<^verbatim>\<open>it\<close> is the result of the \<^verbatim>\<open>find\<close> before the
  list is created. When the frequency had no list, \<^verbatim>\<open>it\<close> is still \<^verbatim>\<open>end()\<close> at
  \<^verbatim>\<open>it->second->addNode(node)\<close>.\<close>

definition LfuCache_addToFreqList ::
    "'k \<Rightarrow> 'v \<Rightarrow> ptr \<Rightarrow> ('k, 'v) LfuCache \<Rightarrow> ('k, 'v) LfuCache option" where
  "LfuCache_addToFreqList dk dv node c =
     (if node = None then Some c
      else do {
        n \<leftarrow> deref (lfu_heap c) node;
        case map_of (lfu_freqToFreqList c) (fn_freq n) of
          None \<Rightarrow>
            do {
              (l, h1) \<leftarrow> FreqList_new dk dv (fn_freq n) (lfu_heap c);
              let c1 = c\<lparr>lfu_freqToFreqList :=
                           AList.update (fn_freq n) l (lfu_freqToFreqList c),
                         lfu_heap := h1\<rparr>;
              None
            }
        | Some l \<Rightarrow>
            do {
              h1 \<leftarrow> FreqList_addNode l node (lfu_heap c);
              Some (c\<lparr>lfu_heap := h1\<rparr>)
            }
      })"

definition LfuCache_updateMinFreq :: "('k, 'v) LfuCache \<Rightarrow> ('k, 'v) LfuCache option" where
  "LfuCache_updateMinFreq c =
     do {
       m \<leftarrow> fold (\<lambda>(f, l) acc.
                   do {
                     cur \<leftarrow> acc;
                     e \<leftarrow> FreqList_isEmpty l (lfu_heap c);
                     Some (if \<not> e then min cur f else cur)
                   })
                (lfu_freqToFreqList c) (Some INT8_MAX);
       Some (c\<lparr>lfu_minFreq := (if m = INT8_MAX then 1 else m)\<rparr>)
     }"

text \<open>The body of the loop of \<^verbatim>\<open>handleOverMaxAvgNum\<close>, over the entries of \<^verbatim>\<open>nodeMap_\<close>
  in the order of the iteration; \<^verbatim>\<open>/\<close> on \<^verbatim>\<open>int\<close> truncates towards zero (\<open>sdiv\<close>).\<close>

fun LfuCache_ageNodes ::
    "'k \<Rightarrow> 'v \<Rightarrow> ('k \<times> ptr) list \<Rightarrow> ('k, 'v) LfuCache \<Rightarrow> ('k, 'v) LfuCache option" where
  "LfuCache_ageNodes dk dv [] c = Some c"
| "LfuCache_ageNodes dk dv ((k, node) # rest) c =
     (if node = None then LfuCache_ageNodes dk dv rest c
      else case LfuCache_removeFromFreqList node c of
        None \<Rightarrow> None
      | Some c1 \<Rightarrow>
         (case modify node (\<lambda>n. n\<lparr>fn_freq := fn_freq n - lfu_maxAvgNum c1 sdiv 2\<rparr>)
                 (lfu_heap c1) of
            None \<Rightarrow> None
          | Some h1 \<Rightarrow>
             (case deref h1 node of
                None \<Rightarrow> None
              | Some n \<Rightarrow>
                 (case (if fn_freq n \<le> 0 then modify node (\<lambda>x. x\<lparr>fn_freq := 1\<rparr>) h1
                        else Some h1) of
                    None \<Rightarrow> None
                  | Some h2 \<Rightarrow>
                     (case LfuCache_addToFreqList dk dv node (c1\<lparr>lfu_heap := h2\<rparr>) of
                        None \<Rightarrow> None
                      | Some c2 \<Rightarrow> LfuCache_ageNodes dk dv rest c2)))))"

definition LfuCache_handleOverMaxAvgNum ::
    "'k \<Rightarrow> 'v \<Rightarrow> ('k, 'v) LfuCache \<Rightarrow> ('k, 'v) LfuCache option" where
  "LfuCache_handleOverMaxAvgNum dk dv c =
     (if lfu_nodeMap c = [] then Some c
      else do {
        c1 \<leftarrow> LfuCache_ageNodes dk dv (lfu_nodeMap c) c;
        LfuCache_updateMinFreq c1
      })"

text \<open>\<^verbatim>\<open>curTotalNum_ / nodeMap_.size()\<close> divides an \<^verbatim>\<open>int\<close> by a \<^verbatim>\<open>size_t\<close>: the division
  is unsigned and its result is converted back to \<^verbatim>\<open>int\<close>.\<close>

definition LfuCache_avg :: "int \<Rightarrow> nat \<Rightarrow> int" where
  "LfuCache_avg tot n = (if n = 0 then 0 else int_of_size_t (size_t_of_int tot div n))"

definition LfuCache_addFreqNum ::
    "'k \<Rightarrow> 'v \<Rightarrow> ('k, 'v) LfuCache \<Rightarrow> ('k, 'v) LfuCache option" where
  "LfuCache_addFreqNum dk dv c =
     (let c1 = c\<lparr>lfu_curTotalNum := lfu_curTotalNum c + 1\<rparr>;
          c2 = c1\<lparr>lfu_curAvgNum := LfuCache_avg (lfu_curTotalNum c1) (length (lfu_nodeMap c1))\<rparr>
      in if lfu_curAvgNum c2 > lfu_maxAvgNum c2
         then LfuCache_handleOverMaxAvgNum dk dv c2
         else Some c2)"

definition LfuCache_decreaseFreqNum :: "int \<Rightarrow> ('k, 'v) LfuCache \<Rightarrow> ('k, 'v) LfuCache" where
  "LfuCache_decreaseFreqNum num c =
     (let c1 = c\<lparr>lfu_curTotalNum := lfu_curTotalNum c - num\<rparr>
      in c1\<lparr>lfu_curAvgNum := LfuCache_avg (lfu_curTotalNum c1) (length (lfu_nodeMap c1))\<rparr>)"

definition LfuCache_kickOut :: "('k, 'v) LfuCache \<Rightarrow> ('k, 'v) LfuCache option" where
  "LfuCache_kickOut c =
     do {
       l \<leftarrow> map_of (lfu_freqToFreqList c) (lfu_minFreq c);
       node \<leftarrow> FreqList_getFirstNode l (lfu_heap c);
       c1 \<leftarrow> LfuCache_removeFromFreqList node c;
       n \<leftarrow> deref (lfu_heap c1) node;
       let c2 = c1\<lparr>lfu_nodeMap := AList.delete (fn_key n) (lfu_nodeMap c1)\<rparr>;
       Some (LfuCache_decreaseFreqNum (fn_freq n) c2)
     }"

text \<open>\<^verbatim>\<open>putInternal\<close> and \<^verbatim>\<open>getInternal\<close> are declared and defined, and called by no
  function of the class.\<close>

definition LfuCache_putInternal ::
    "'k \<Rightarrow> 'v \<Rightarrow> 'k \<Rightarrow> 'v \<Rightarrow> ('k, 'v) LfuCache \<Rightarrow> ('k, 'v) LfuCache option" where
  "LfuCache_putInternal dk dv key v c =
     do {
       c1 \<leftarrow> (if length (lfu_nodeMap c) \<ge> size_t_of_int (lfu_capacity c)
              then LfuCache_kickOut c else Some c);
       let (newNode, h1) = alloc (FreqNode_new key v) (lfu_heap c1);
       let c2 = c1\<lparr>lfu_nodeMap := AList.update key newNode (lfu_nodeMap c1), lfu_heap := h1\<rparr>;
       c3 \<leftarrow> LfuCache_addToFreqList dk dv newNode c2;
       c4 \<leftarrow> LfuCache_addFreqNum dk dv c3;
       Some (c4\<lparr>lfu_minFreq := min (lfu_minFreq c4) 1\<rparr>)
     }"

definition LfuCache_getInternal ::
    "'k \<Rightarrow> 'v \<Rightarrow> ptr \<Rightarrow> ('k, 'v) LfuCache \<Rightarrow> ('v \<times> ('k, 'v) LfuCache) option" where
  "LfuCache_getInternal dk dv node c =
     do {
       n \<leftarrow> deref (lfu_heap c) node;
       let v = fn_value n;
       c1 \<leftarrow> LfuCache_removeFromFreqList node c;
       h1 \<leftarrow> modify node (\<lambda>x. x\<lparr>fn_freq := fn_freq x + 1\<rparr>) (lfu_heap c1);
       c2 \<leftarrow> LfuCache_addToFreqList dk dv node (c1\<lparr>lfu_heap := h1\<rparr>);
       n2 \<leftarrow> deref (lfu_heap c2) node;
       c3 \<leftarrow> (if fn_freq n2 = lfu_minFreq c2 + 1
              then do {
                l \<leftarrow> map_of (lfu_freqToFreqList c2) (lfu_minFreq c2);
                e \<leftarrow> FreqList_isEmpty l (lfu_heap c2);
                Some (if e then c2\<lparr>lfu_minFreq := lfu_minFreq c2 + 1\<rparr> else c2)
              }
              else Some c2);
       c4 \<leftarrow> LfuCache_addFreqNum dk dv c3;
       Some (v, c4)
     }"


section \<open>ArcLfuPart (src/unnamed/part_000)\<close>

text \<open>Modelled from the spec: the node type \<^verbatim>\<open>ArcNode\<close> of \<^verbatim>\<open>ArcCacheNode.h\<close>, which is not
  among the sources. An entry holds a key, a value, an access count initialised to 1 and
  the references to its neighbours; \<open>dk\<close> and \<open>dv\<close> are the key and the value of a
  default-constructed node.\<close>

record ('k, 'v) ArcNode =
  an_key :: 'k
  an_value :: 'v
  an_accessCount :: nat
  an_prev :: ptr
  an_next :: ptr

definition ArcNode_default :: "'k \<Rightarrow> 'v \<Rightarrow> ('k, 'v) ArcNode" where
  "ArcNode_default dk dv =
     \<lparr>an_key = dk, an_value = dv, an_accessCount = 1, an_prev = None, an_next = None\<rparr>"

definition ArcNode_new :: "'k \<Rightarrow> 'v \<Rightarrow> ('k, 'v) ArcNode" where
  "ArcNode_new key v =
     \<lparr>an_key = key, an_value = v, an_accessCount = 1, an_prev = None, an_next = None\<rparr>"

text \<open>\<^verbatim>\<open>freqMap_\<close> is a \<^verbatim>\<open>std::map\<close> from a frequency to a \<^verbatim>\<open>std::list\<close> of node pointers:
  an association list whose \<^verbatim>\<open>begin()\<close> is the entry of the least key.\<close>

record ('k, 'v) ArcLfuPart =
  alfu_capacity :: "64 word"
  alfu_ghostCapacity :: "64 word"
  alfu_transformThreshold :: nat
  alfu_minFreq :: nat
  alfu_mainCache :: "('k \<times> ptr) list"
  alfu_ghostCache :: "('k \<times> ptr) list"
  alfu_freqMap :: "(nat \<times> ptr list) list"
  alfu_ghostHead :: ptr
  alfu_ghostTail :: ptr
  alfu_heap :: "('k, 'v) ArcNode list"

definition freqMap_at :: "(nat \<times> ptr list) list \<Rightarrow> nat \<Rightarrow> ptr list" where
  "freqMap_at m f = (case map_of m f of None \<Rightarrow> [] | Some l \<Rightarrow> l)"

definition freqMap_begin :: "(nat \<times> ptr list) list \<Rightarrow> nat" where
  "freqMap_begin m = fold min (map fst (tl m)) (fst (hd m))"

definition ArcLfuPart_initLists ::
    "'k \<Rightarrow> 'v \<Rightarrow> ('k, 'v) ArcLfuPart \<Rightarrow> ('k, 'v) ArcLfuPart option" where
  "ArcLfuPart_initLists dk dv c =
     (let (hd, h1) = alloc (ArcNode_default dk dv) (alfu_heap c);
          (tl, h2) = alloc (ArcNode_default dk dv) h1
      in do {
        h3 \<leftarrow> modify hd (\<lambda>n. n\<lparr>an_next := tl\<rparr>) h2;
        h4 \<leftarrow> modify tl (\<lambda>n. n\<lparr>an_prev := hd\<rparr>) h3;
        Some (c\<lparr>alfu_ghostHead := hd, alfu_ghostTail := tl, alfu_heap := h4\<rparr>)
      })"

definition ArcLfuPart_new ::
    "'k \<Rightarrow> 'v \<Rightarrow> 64 word \<Rightarrow> nat \<Rightarrow> ('k, 'v) ArcLfuPart option" where
  "ArcLfuPart_new dk dv capacity transformThreshold =
     ArcLfuPart_initLists dk dv
       \<lparr>alfu_capacity = capacity, alfu_ghostCapacity = capacity,
        alfu_transformThreshold = transformThreshold, alfu_minFreq = 0,
        alfu_mainCache = [], alfu_ghostCache = [], alfu_freqMap = [],
        alfu_ghostHead = None, alfu_ghostTail = None, alfu_heap = []\<rparr>"

definition ArcLfuPart_removeFromGhost ::
    "ptr \<Rightarrow> ('k, 'v) ArcLfuPart \<Rightarrow> ('k, 'v) ArcLfuPart option" where
  "ArcLfuPart_removeFromGhost node c =
     do {
       n \<leftarrow> deref (alfu_heap c) node;
       h1 \<leftarrow> modify (an_prev n) (\<lambda>p. p\<lparr>an_next := an_next n\<rparr>) (alfu_heap c);
       n1 \<leftarrow> deref h1 node;
       h2 \<leftarrow> modify (an_next n1) (\<lambda>p. p\<lparr>an_prev := an_prev n1\<rparr>) h1;
       Some (c\<lparr>alfu_heap := h2\<rparr>)
     }"

definition ArcLfuPart_addToGhost ::
    "ptr \<Rightarrow> ('k, 'v) ArcLfuPart \<Rightarrow> ('k, 'v) ArcLfuPart option" where
  "ArcLfuPart_addToGhost node c =
     do {
       t \<leftarrow> deref (alfu_heap c) (alfu_ghostTail c);
       h1 \<leftarrow> modify node (\<lambda>n. n\<lparr>an_prev := an_prev t\<rparr>) (alfu_heap c);
       h2 \<leftarrow> modify node (\<lambda>n. n\<lparr>an_next := alfu_ghostTail c\<rparr>) h1;
       t2 \<leftarrow> deref h2 (alfu_ghostTail c);
       h3 \<leftarrow> modify (an_prev t2) (\<lambda>p. p\<lparr>an_next := node\<rparr>) h2;
       h4 \<leftarrow> modify (alfu_ghostTail c) (\<lambda>p. p\<lparr>an_prev := node\<rparr>) h3;
       n \<leftarrow> deref h4 node;
       Some (c\<lparr>alfu_ghostCache := AList.update (an_key n) node (alfu_ghostCache c),
               alfu_heap := h4\<rparr>)
     }"

definition ArcLfuPart_removeOldestGhost ::
    "('k, 'v) ArcLfuPart \<Rightarrow> ('k, 'v) ArcLfuPart option" where
  "ArcLfuPart_removeOldestGhost c =
     do {
       hd \<leftarrow> deref (alfu_heap c) (alfu_ghostHead c);
       let oldestGhost = an_next hd;
       if oldestGhost = alfu_ghostTail c then Some c
       else do {
         c1 \<leftarrow> ArcLfuPart_removeFromGhost oldestGhost c;
         n \<leftarrow> deref (alfu_heap c1) oldestGhost;
         Some (c1\<lparr>alfu_ghostCache := AList.delete (an_key n) (alfu_ghostCache c1)\<rparr>)
       }
     }"

text \<open>\<^verbatim>\<open>evictLeastFrequency\<close>. \<^verbatim>\<open>freqMap_[minFreq_]\<close> inserts an empty list for a
  frequency that has none; the function erases it again before it returns.\<close>

definition ArcLfuPart_evictLeastFrequency ::
    "('k, 'v) ArcLfuPart \<Rightarrow> ('k, 'v) ArcLfuPart option" where
  "ArcLfuPart_evictLeastFrequency c =
     (if alfu_freqMap c = [] then Some c
      else case freqMap_at (alfu_freqMap c) (alfu_minFreq c) of
        [] \<Rightarrow> Some (c\<lparr>alfu_freqMap := AList.delete (alfu_minFreq c) (alfu_freqMap c)\<rparr>)
      | leastNode # minFreqList \<Rightarrow>
          do {
            let c1 =
              (if minFreqList = []
               then (let m = AList.delete (alfu_minFreq c) (alfu_freqMap c)
                     in c\<lparr>alfu_freqMap := m,
                          alfu_minFreq := (if m \<noteq> [] then freqMap_begin m else alfu_minFreq c)\<rparr>)
               else c\<lparr>alfu_freqMap :=
                        AList.update (alfu_minFreq c) minFreqList (alfu_freqMap c)\<rparr>);
            c2 \<leftarrow> (if length (alfu_ghostCache c1) \<ge> unat (alfu_ghostCapacity c1)
                   then ArcLfuPart_removeOldestGhost c1 else Some c1);
            c3 \<leftarrow> ArcLfuPart_addToGhost leastNode c2;
            n \<leftarrow> deref (alfu_heap c3) leastNode;
            Some (c3\<lparr>alfu_mainCache := AList.delete (an_key n) (alfu_mainCache c3)\<rparr>)
          })"

definition ArcLfuPart_updateNodeFrequency ::
    "ptr \<Rightarrow> ('k, 'v) ArcLfuPart \<Rightarrow> ('k, 'v) ArcLfuPart option" where
  "ArcLfuPart_updateNodeFrequency node c =
     do {
       n \<leftarrow> deref (alfu_heap c) node;
       let oldFreq = an_accessCount n;
       h1 \<leftarrow> modify node (\<lambda>x. x\<lparr>an_accessCount := an_accessCount x + 1\<rparr>) (alfu_heap c);
       n1 \<leftarrow> deref h1 node;
       let newFreq = an_accessCount n1;
       let oldFreqList = removeAll node (freqMap_at (alfu_freqMap c) oldFreq);
       let c1 =
         (if oldFreqList = []
          then c\<lparr>alfu_freqMap := AList.delete oldFreq (alfu_freqMap c),
                 alfu_minFreq := (if alfu_minFreq c = oldFreq then newFreq else alfu_minFreq c),
                 alfu_heap := h1\<rparr>
          else c\<lparr>alfu_freqMap := AList.update oldFreq oldFreqList (alfu_freqMap c),
                 alfu_heap := h1\<rparr>);
       Some (c1\<lparr>alfu_freqMap :=
                  AList.update newFreq (freqMap_at (alfu_freqMap c1) newFreq @ [node])
                    (alfu_freqMap c1)\<rparr>)
     }"

text \<open>\<^verbatim>\<open>updateExistingNode\<close>: after \<^verbatim>\<open>setValue\<close> the source has the lone word
  \<^verbatim>\<open>updateNode\<close>, which names nothing and calls nothing; then \<^verbatim>\<open>return true\<close>.\<close>

definition ArcLfuPart_updateExistingNode ::
    "ptr \<Rightarrow> 'v \<Rightarrow> ('k, 'v) ArcLfuPart \<Rightarrow> (bool \<times> ('k, 'v) ArcLfuPart) option" where
  "ArcLfuPart_updateExistingNode node v c =
     do {
       h1 \<leftarrow> modify node (\<lambda>n. n\<lparr>an_value := v\<rparr>) (alfu_heap c);
       Some (True, c\<lparr>alfu_heap := h1\<rparr>)
     }"

definition ArcLfuPart_addNewNode ::
    "'k \<Rightarrow> 'v \<Rightarrow> ('k, 'v) ArcLfuPart \<Rightarrow> (bool \<times> ('k, 'v) ArcLfuPart) option" where
  "ArcLfuPart_addNewNode key v c =
     do {
       c1 \<leftarrow> (if length (alfu_mainCache c) \<ge> unat (alfu_capacity c)
              then ArcLfuPart_evictLeastFrequency c else Some c);
       let (newNode, h1) = alloc (ArcNode_new key v) (alfu_heap c1);
       Some (True,
             c1\<lparr>alfu_mainCache := AList.update key newNode (alfu_mainCache c1),
                alfu_freqMap :=
                  AList.update 1 (freqMap_at (alfu_freqMap c1) 1 @ [newNode]) (alfu_freqMap c1),
                alfu_minFreq := 1,
                alfu_heap := h1\<rparr>)
     }"

definition ArcLfuPart_put ::
    "'k \<Rightarrow> 'v \<Rightarrow> ('k, 'v) ArcLfuPart \<Rightarrow> (bool \<times> ('k, 'v) ArcLfuPart) option" where
  "ArcLfuPart_put key v c =
     (if alfu_capacity c = 0 then Some (False, c)
      else case map_of (alfu_mainCache c) key of
             Some node \<Rightarrow> ArcLfuPart_updateExistingNode node v c
           | None \<Rightarrow> ArcLfuPart_addNewNode key v c)"

definition ArcLfuPart_get ::
    "'k \<Rightarrow> 'v \<Rightarrow> ('k, 'v) ArcLfuPart \<Rightarrow> (bool \<times> 'v \<times> ('k, 'v) ArcLfuPart) option" where
  "ArcLfuPart_get key out c =
     (case map_of (alfu_mainCache c) key of
        Some node \<Rightarrow>
          do {
            c1 \<leftarrow> ArcLfuPart_updateNodeFrequency node c;
            n \<leftarrow> deref (alfu_heap c1) node;
            Some (True, an_value n, c1)
          }
      | None \<Rightarrow> Some (False, out, c))"

definition ArcLfuPart_checkGhost ::
    "'k \<Rightarrow> ('k, 'v) ArcLfuPart \<Rightarrow> (bool \<times> ('k, 'v) ArcLfuPart) option" where
  "ArcLfuPart_checkGhost key c =
     (case map_of (alfu_ghostCache c) key of
        Some node \<Rightarrow>
          do {
            c1 \<leftarrow> ArcLfuPart_removeFromGhost node c;
            Some (True, c1\<lparr>alfu_ghostCache := AList.delete key (alfu_ghostCache c1)\<rparr>)
          }
      | None \<Rightarrow> Some (False, c))"

definition ArcLfuPart_increaseCapacity :: "('k, 'v) ArcLfuPart \<Rightarrow> ('k, 'v) ArcLfuPart" where
  "ArcLfuPart_increaseCapacity c = c\<lparr>alfu_capacity := alfu_capacity c + 1\<rparr>"

definition ArcLfuPart_decreaseCapacity ::
    "('k, 'v) ArcLfuPart \<Rightarrow> (bool \<times> ('k, 'v) ArcLfuPart) option" where
  "ArcLfuPart_decreaseCapacity c =
     (if alfu_capacity c \<le> 0 then Some (False, c)
      else do {
        c1 \<leftarrow> (if length (alfu_mainCache c) = unat (alfu_capacity c)
               then ArcLfuPart_evictLeastFrequency c else Some c);
        Some (True, c1\<lparr>alfu_capacity := alfu_capacity c1 - 1\<rparr>)
      })"


section \<open>ArcLruPart (named by src/ArcCache/ArcCache.h, not among the sources)\<close>

text \<open>Modelled from the spec: the class \<^verbatim>\<open>ArcLruPart\<close> of \<^verbatim>\<open>ArcLruPart.h\<close>, which
  \<^verbatim>\<open>ArcCache.h\<close> includes and which is not among the sources. The state follows section
  4.4 of the specification: a mutable capacity, a ghost capacity equal to the initial
  capacity, the promotion threshold, the main segment as the list of its entries (key,
  value, access count) from least to most recently used, and the ghost list of victim
  keys from oldest to newest.\<close>

record ('k, 'v) ArcLruPart =
  alru_capacity :: "64 word"
  alru_ghostCapacity :: "64 word"
  alru_transformThreshold :: nat
  alru_main :: "('k \<times> 'v \<times> nat) list"
  alru_ghost :: "'k list"

text \<open>Modelled from the spec: the constructor of \<^verbatim>\<open>ArcLruPart\<close>, called by \<^verbatim>\<open>ArcCache\<close>
  with the capacity and the threshold.\<close>

definition ArcLruPart_new :: "64 word \<Rightarrow> nat \<Rightarrow> ('k, 'v) ArcLruPart" where
  "ArcLruPart_new capacity transformThreshold =
     \<lparr>alru_capacity = capacity, alru_ghostCapacity = capacity,
      alru_transformThreshold = transformThreshold, alru_main = [], alru_ghost = []\<rparr>"

text \<open>Modelled from the spec: eviction in \<^verbatim>\<open>ArcLruPart\<close>, "evict LRU: remove from main
  map/list, append key to ghost (removing ghost's oldest if full)".\<close>

definition ArcLruPart_evict :: "('k, 'v) ArcLruPart \<Rightarrow> ('k, 'v) ArcLruPart" where
  "ArcLruPart_evict c =
     (case alru_main c of
        [] \<Rightarrow> c
      | (k, v, n) # rest \<Rightarrow>
          c\<lparr>alru_main := rest,
            alru_ghost :=
              (if length (alru_ghost c) \<ge> unat (alru_ghostCapacity c)
               then tl (alru_ghost c) else alru_ghost c) @ [k]\<rparr>)"

text \<open>Modelled from the spec: \<^verbatim>\<open>ArcLruPart::put\<close>, "if present in main, overwrite and
  move to MRU end; return promoted iff the entry's access count has reached
  transformThreshold. Else insert new; if at capacity, evict LRU"; a part of capacity 0
  stores nothing (section 4.1), and the result for a new entry is that of the design
  notes, access count at least the threshold.\<close>

definition ArcLruPart_put ::
    "'k \<Rightarrow> 'v \<Rightarrow> ('k, 'v) ArcLruPart \<Rightarrow> bool \<times> ('k, 'v) ArcLruPart" where
  "ArcLruPart_put key v c =
     (if alru_capacity c = 0 then (False, c)
      else case map_of (alru_main c) key of
        Some (old, n) \<Rightarrow>
          (n \<ge> alru_transformThreshold c,
           c\<lparr>alru_main := AList.delete key (alru_main c) @ [(key, v, n)]\<rparr>)
      | None \<Rightarrow>
          (let c1 = (if length (alru_main c) \<ge> unat (alru_capacity c)
                     then ArcLruPart_evict c else c)
           in (1 \<ge> alru_transformThreshold c,
               c1\<lparr>alru_main := alru_main c1 @ [(key, v, 1)]\<rparr>)))"

text \<open>Modelled from the spec: \<^verbatim>\<open>ArcLruPart::get\<close>, "on main hit, move to MRU, increment
  access count, set shouldTransform = (accessCount >= transformThreshold), return true.
  On miss, return false". The result is the flag, the out parameter, shouldTransform
  (false before the call) and the part.\<close>

definition ArcLruPart_get ::
    "'k \<Rightarrow> 'v \<Rightarrow> ('k, 'v) ArcLruPart \<Rightarrow> bool \<times> 'v \<times> bool \<times> ('k, 'v) ArcLruPart" where
  "ArcLruPart_get key out c =
     (case map_of (alru_main c) key of
        Some (v, n) \<Rightarrow>
          (True, v, n + 1 \<ge> alru_transformThreshold c,
           c\<lparr>alru_main := AList.delete key (alru_main c) @ [(key, v, n + 1)]\<rparr>)
      | None \<Rightarrow> (False, out, False, c))"

text \<open>Modelled from the spec: \<^verbatim>\<open>ArcLruPart::checkGhost\<close>, "if k in ghost, unlink and
  erase; return true. Else false".\<close>

definition ArcLruPart_checkGhost ::
    "'k \<Rightarrow> ('k, 'v) ArcLruPart \<Rightarrow> bool \<times> ('k, 'v) ArcLruPart" where
  "ArcLruPart_checkGhost key c =
     (if key \<in> set (alru_ghost c)
      then (True, c\<lparr>alru_ghost := removeAll key (alru_ghost c)\<rparr>)
      else (False, c))"

text \<open>Modelled from the spec: \<^verbatim>\<open>ArcLruPart::increaseCapacity\<close> and
  \<^verbatim>\<open>ArcLruPart::decreaseCapacity\<close>, "adjust capacity; decreasing must first evict one entry
  if the part is currently full; returns false when capacity is already 0".\<close>

definition ArcLruPart_increaseCapacity :: "('k, 'v) ArcLruPart \<Rightarrow> ('k, 'v) ArcLruPart" where
  "ArcLruPart_increaseCapacity c = c\<lparr>alru_capacity := alru_capacity c + 1\<rparr>"

definition ArcLruPart_decreaseCapacity ::
    "('k, 'v) ArcLruPart \<Rightarrow> bool \<times> ('k, 'v) ArcLruPart" where
  "ArcLruPart_decreaseCapacity c =
     (if alru_capacity c = 0 then (False, c)
      else (let c1 = (if length (alru_main c) = unat (alru_capacity c)
                      then ArcLruPart_evict c else c)
            in (True, c1\<lparr>alru_capacity := alru_capacity c1 - 1\<rparr>)))"


section \<open>ArcCache (src/ArcCache/ArcCache.h)\<close>

record ('k, 'v) ArcCache =
  arc_capacity :: "64 word"
  arc_transformThreshold :: nat
  arc_lfuPart :: "('k, 'v) ArcLfuPart"
  arc_lruPart :: "('k, 'v) ArcLruPart"

definition ArcCache_new :: "'k \<Rightarrow> 'v \<Rightarrow> 64 word \<Rightarrow> nat \<Rightarrow> ('k, 'v) ArcCache option" where
  "ArcCache_new dk dv capacity transformThreshold =
     do {
       lfu \<leftarrow> ArcLfuPart_new dk dv capacity transformThreshold;
       Some \<lparr>arc_capacity = capacity, arc_transformThreshold = transformThreshold,
             arc_lfuPart = lfu, arc_lruPart = ArcLruPart_new capacity transformThreshold\<rparr>
     }"

definition ArcCache_checkGhostCaches ::
    "'k \<Rightarrow> ('k, 'v) ArcCache \<Rightarrow> (bool \<times> ('k, 'v) ArcCache) option" where
  "ArcCache_checkGhostCaches key c =
     (let (inLru, lru1) = ArcLruPart_checkGhost key (arc_lruPart c)
      in if inLru
         then do {
           (ok, lfu1) \<leftarrow> ArcLfuPart_decreaseCapacity (arc_lfuPart c);
           Some (True,
                 c\<lparr>arc_lfuPart := lfu1,
                   arc_lruPart := (if ok then ArcLruPart_increaseCapacity lru1 else lru1)\<rparr>)
         }
         else do {
           (inLfu, lfu1) \<leftarrow> ArcLfuPart_checkGhost key (arc_lfuPart c);
           if inLfu
           then (let (ok, lru2) = ArcLruPart_decreaseCapacity lru1
                 in Some (True,
                          c\<lparr>arc_lfuPart :=
                               (if ok then ArcLfuPart_increaseCapacity lfu1 else lfu1),
                            arc_lruPart := lru2\<rparr>))
           else Some (False, c\<lparr>arc_lfuPart := lfu1, arc_lruPart := lru1\<rparr>)
         })"

definition ArcCache_put :: "'k \<Rightarrow> 'v \<Rightarrow> ('k, 'v) ArcCache \<Rightarrow> ('k, 'v) ArcCache option" where
  "ArcCache_put key v c =
     do {
       (inGhost, c1) \<leftarrow> ArcCache_checkGhostCaches key c;
       let (promoted, lru1) = ArcLruPart_put key v (arc_lruPart c1);
       if inGhost then Some (c1\<lparr>arc_lruPart := lru1\<rparr>)
       else if promoted
       then do {
         (r, lfu1) \<leftarrow> ArcLfuPart_put key v (arc_lfuPart c1);
         Some (c1\<lparr>arc_lfuPart := lfu1, arc_lruPart := lru1\<rparr>)
       }
       else Some (c1\<lparr>arc_lruPart := lru1\<rparr>)
     }"

definition ArcCache_get ::
    "'k \<Rightarrow> 'v \<Rightarrow> ('k, 'v) ArcCache \<Rightarrow> (bool \<times> 'v \<times> ('k, 'v) ArcCache) option" where
  "ArcCache_get key out c =
     do {
       (inGhost, c1) \<leftarrow> ArcCache_checkGhostCaches key c;
       let (found, v, shouldTransform, lru1) = ArcLruPart_get key out (arc_lruPart c1);
       if found
       then (if shouldTransform
             then do {
               (r, lfu1) \<leftarrow> ArcLfuPart_put key v (arc_lfuPart c1);
               Some (True, v, c1\<lparr>arc_lfuPart := lfu1, arc_lruPart := lru1\<rparr>)
             }
             else Some (True, v, c1\<lparr>arc_lruPart := lru1\<rparr>))
       else do {
         (r, v2, lfu1) \<leftarrow> ArcLfuPart_get key v (arc_lfuPart c1);
         Some (r, v2, c1\<lparr>arc_lfuPart := lfu1, arc_lruPart := lru1\<rparr>)
       }
     }"

definition ArcCache_get_value ::
    "'v \<Rightarrow> 'k \<Rightarrow> ('k, 'v) ArcCache \<Rightarrow> ('v \<times> ('k, 'v) ArcCache) option" where
  "ArcCache_get_value dv key c =
     do {
       (found, v, c1) \<leftarrow> ArcCache_get key dv c;
       Some (v, c1)
     }"


section \<open>Sequences of operations\<close>

text \<open>The public operations of \<^verbatim>\<open>LruCache\<close> and of \<^verbatim>\<open>LfuCache\<close> as data, what one call
  hands back to its caller, and a run of calls on one cache. A run is \<open>None\<close> when a call
  of it has undefined behaviour. \<open>dv\<close> is the default value of \<^verbatim>\<open>Value get(Key)\<close>.\<close>

datatype 'v answer = Returned | GetReturned bool 'v | ValueReturned 'v

datatype ('k, 'v) LruCache_op = LruPut 'k 'v | LruGet 'k 'v | LruGetValue 'k | LruRemove 'k

fun LruCache_step ::
    "'v \<Rightarrow> ('k, 'v) LruCache_op \<Rightarrow> ('k, 'v) LruCache \<Rightarrow> ('v answer \<times> ('k, 'v) LruCache) option" where
  "LruCache_step dv (LruPut k v) c =
     do { c1 \<leftarrow> LruCache_put k v c; Some (Returned, c1) }"
| "LruCache_step dv (LruGet k out) c =
     do { (found, v, c1) \<leftarrow> LruCache_get k out c; Some (GetReturned found v, c1) }"
| "LruCache_step dv (LruGetValue k) c =
     do { (v, c1) \<leftarrow> LruCache_get_value dv k c; Some (ValueReturned v, c1) }"
| "LruCache_step dv (LruRemove k) c =
     do { c1 \<leftarrow> LruCache_remove k c; Some (Returned, c1) }"

fun LruCache_run ::
    "'v \<Rightarrow> ('k, 'v) LruCache_op list \<Rightarrow> ('k, 'v) LruCache
      \<Rightarrow> ('v answer list \<times> ('k, 'v) LruCache) option" where
  "LruCache_run dv [] c = Some ([], c)"
| "LruCache_run dv (x # xs) c =
     (case LruCache_step dv x c of
        None \<Rightarrow> None
      | Some (a, c1) \<Rightarrow>
          (case LruCache_run dv xs c1 of
             None \<Rightarrow> None
           | Some (as, c2) \<Rightarrow> Some (a # as, c2)))"

text \<open>What a call answers when it finds nothing: \<^verbatim>\<open>get\<close> returns false with the out
  parameter as it was, \<^verbatim>\<open>Value get(Key)\<close> returns the default value.\<close>

fun LruCache_miss :: "'v \<Rightarrow> ('k, 'v) LruCache_op \<Rightarrow> 'v answer" where
  "LruCache_miss dv (LruPut k v) = Returned"
| "LruCache_miss dv (LruGet k out) = GetReturned False out"
| "LruCache_miss dv (LruGetValue k) = ValueReturned dv"
| "LruCache_miss dv (LruRemove k) = Returned"

datatype ('k, 'v) LfuCache_op = LfuPut 'k 'v | LfuGet 'k 'v | LfuGetValue 'k | LfuPurge

fun LfuCache_step ::
    "'v \<Rightarrow> ('k, 'v) LfuCache_op \<Rightarrow> ('k, 'v) LfuCache \<Rightarrow> ('v answer \<times> ('k, 'v) LfuCache) option" where
  "LfuCache_step dv (LfuPut k v) c =
     do { c1 \<leftarrow> LfuCache_put k v c; Some (Returned, c1) }"
| "LfuCache_step dv (LfuGet k out) c =
     do { (found, v, c1) \<leftarrow> LfuCache_get k out c; Some (GetReturned found v, c1) }"
| "LfuCache_step dv (LfuGetValue k) c =
     do { (v, c1) \<leftarrow> LfuCache_get_value dv k c; Some (ValueReturned v, c1) }"
| "LfuCache_step dv LfuPurge c =
     do { c1 \<leftarrow> LfuCache_purge c; Some (Returned, c1) }"

fun LfuCache_run ::
    "'v \<Rightarrow> ('k, 'v) LfuCache_op list \<Rightarrow> ('k, 'v) LfuCache
      \<Rightarrow> ('v answer list \<times> ('k, 'v) LfuCache) option" where
  "LfuCache_run dv [] c = Some ([], c)"
| "LfuCache_run dv (x # xs) c =
     (case LfuCache_step dv x c of
        None \<Rightarrow> None
      | Some (a, c1) \<Rightarrow>
          (case LfuCache_run dv xs c1 of
             None \<Rightarrow> None
           | Some (as, c2) \<Rightarrow> Some (a # as, c2)))"

fun LfuCache_miss :: "'v \<Rightarrow> ('k, 'v) LfuCache_op \<Rightarrow> 'v answer" where
  "LfuCache_miss dv (LfuPut k v) = Returned"
| "LfuCache_miss dv (LfuGet k out) = GetReturned False out"
| "LfuCache_miss dv (LfuGetValue k) = ValueReturned dv"
| "LfuCache_miss dv LfuPurge = Returned"


section \<open>The capacities of the two halves of ArcCache\<close>

definition ArcCache_lruCapacity :: "('k, 'v) ArcCache \<Rightarrow> 64 word" where
  "ArcCache_lruCapacity c = alru_capacity (arc_lruPart c)"

definition ArcCache_lfuCapacity :: "('k, 'v) ArcCache \<Rightarrow> 64 word" where
  "ArcCache_lfuCapacity c = alfu_capacity (arc_lfuPart c)"

text \<open>The sum as \<^verbatim>\<open>size_t\<close> arithmetic computes it, and the sum of the two numbers.\<close>

definition ArcCache_capacitySum :: "('k, 'v) ArcCache \<Rightarrow> 64 word" where
  "ArcCache_capacitySum c = ArcCache_lruCapacity c + ArcCache_lfuCapacity c"

definition ArcCache_total :: "('k, 'v) ArcCache \<Rightarrow> nat" where
  "ArcCache_total c = unat (ArcCache_lruCapacity c) + unat (ArcCache_lfuCapacity c)"


section \<open>Object states used as concrete inputs\<close>

text \<open>\<^verbatim>\<open>LruCache::put\<close> and \<^verbatim>\<open>LfuCache::put\<close> never insert, so no sequence of calls
  produces an \<^verbatim>\<open>LruCache\<close>, \<^verbatim>\<open>LruKCache\<close> or \<^verbatim>\<open>LfuCache\<close> that holds an entry. The states
  of these classes below are written down directly, as the lists and maps the classes are
  meant to keep: every list has its two sentinels, linked to its nodes in both directions,
  every entry of the key map points to its node, and every node of an \<^verbatim>\<open>LfuCache\<close> is in
  the list of its frequency. The state of \<^verbatim>\<open>ArcCache\<close> is one that calls produce.\<close>

text \<open>A \<^verbatim>\<open>LruCache<int, V>\<close> of capacity 1 that holds key 1 with value \<open>v\<close>: the sentinels
  at addresses 0 and 1, the node at address 2 linked between them.\<close>

definition lru_holding :: "'v \<Rightarrow> 'v \<Rightarrow> (int, 'v) LruCache" where
  "lru_holding dv v =
     \<lparr>lru_capacity = 1, lru_nodeMap = [(1, Some 2)],
      lru_dummyHead = Some 0, lru_dummyTail = Some 1,
      lru_heap =
        [\<lparr>ln_key = 0, ln_value = dv, ln_accessCount = 1, ln_prev = None, ln_next = Some 2\<rparr>,
         \<lparr>ln_key = 0, ln_value = dv, ln_accessCount = 1, ln_prev = Some 2, ln_next = None\<rparr>,
         \<lparr>ln_key = 1, ln_value = v, ln_accessCount = 1, ln_prev = Some 0, ln_next = Some 1\<rparr>]\<rparr>"

text \<open>A \<^verbatim>\<open>LruKCache<int, std::string>\<close> (K = 3, history capacity 4) whose main cache
  holds key 1 with the empty string and whose history is as constructed; and one whose
  main cache holds key 1 with \<^verbatim>\<open>"a"\<close> and whose history holds key 1 with count 1.\<close>

definition lruk_resident_empty :: "int LruKCache" where
  "lruk_resident_empty =
     \<lparr>lruk_main = lru_holding [] [], lruk_k = 3, lruk_historyList = LruCache_new 4\<rparr>"

definition lruk_resident_seen :: "int LruKCache" where
  "lruk_resident_seen =
     \<lparr>lruk_main = lru_holding [] ''a'', lruk_k = 3,
      lruk_historyList = (lru_holding 0 1)\<lparr>lru_capacity := 4\<rparr>\<rparr>"

text \<open>A \<^verbatim>\<open>LfuCache<int, std::string>\<close> of capacity 2 (\<^verbatim>\<open>maxAvgNum\<close> 10) that holds key 1
  with value \<^verbatim>\<open>"a"\<close> and frequency 1: the list of frequency 1 has its sentinels at
  addresses 0 and 1 and the node at address 2.\<close>

definition lfu_holding :: "(int, string) LfuCache" where
  "lfu_holding =
     \<lparr>lfu_capacity = 2, lfu_minFreq = 1, lfu_maxAvgNum = 10, lfu_curAvgNum = 1,
      lfu_curTotalNum = 1, lfu_nodeMap = [(1, Some 2)],
      lfu_freqToFreqList = [(1, \<lparr>fl_freq = 1, fl_dummyHead = Some 0, fl_dummyTail = Some 1\<rparr>)],
      lfu_heap =
        [\<lparr>fn_freq = 1, fn_key = 0, fn_value = [], fn_prev = None, fn_next = Some 2\<rparr>,
         \<lparr>fn_freq = 1, fn_key = 0, fn_value = [], fn_prev = Some 2, fn_next = None\<rparr>,
         \<lparr>fn_freq = 1, fn_key = 1, fn_value = ''a'', fn_prev = Some 0, fn_next = Some 1\<rparr>]\<rparr>"

text \<open>A \<^verbatim>\<open>LfuCache<int, std::string>\<close> with \<^verbatim>\<open>maxAvgNum\<close> 1000 whose one entry has just
  reached frequency 1001 (\<^verbatim>\<open>curTotalNum_\<close> is still 1000, as it is in \<^verbatim>\<open>getInternal\<close>
  before \<^verbatim>\<open>addFreqNum\<close>). The list of frequency 1001 (sentinels 0 and 1) holds the node
  (address 4); the list of frequency 501 (sentinels 2 and 3) exists and is empty.\<close>

definition lfu_hot :: "(int, string) LfuCache" where
  "lfu_hot =
     \<lparr>lfu_capacity = 2, lfu_minFreq = 1001, lfu_maxAvgNum = 1000, lfu_curAvgNum = 1000,
      lfu_curTotalNum = 1000, lfu_nodeMap = [(1, Some 4)],
      lfu_freqToFreqList =
        [(1001, \<lparr>fl_freq = 1001, fl_dummyHead = Some 0, fl_dummyTail = Some 1\<rparr>),
         (501, \<lparr>fl_freq = 501, fl_dummyHead = Some 2, fl_dummyTail = Some 3\<rparr>)],
      lfu_heap =
        [\<lparr>fn_freq = 1, fn_key = 0, fn_value = [], fn_prev = None, fn_next = Some 4\<rparr>,
         \<lparr>fn_freq = 1, fn_key = 0, fn_value = [], fn_prev = Some 4, fn_next = None\<rparr>,
         \<lparr>fn_freq = 1, fn_key = 0, fn_value = [], fn_prev = None, fn_next = Some 3\<rparr>,
         \<lparr>fn_freq = 1, fn_key = 0, fn_value = [], fn_prev = Some 2, fn_next = None\<rparr>,
         \<lparr>fn_freq = 1001, fn_key = 1, fn_value = ''a'', fn_prev = Some 0, fn_next = Some 1\<rparr>]\<rparr>"

text \<open>A \<^verbatim>\<open>LfuCache<int, std::string>\<close> with the default \<^verbatim>\<open>maxAvgNum\<close> 10 whose one entry
  has just reached frequency 11; no list of frequency 6 exists.\<close>

definition lfu_eleven :: "(int, string) LfuCache" where
  "lfu_eleven =
     \<lparr>lfu_capacity = 2, lfu_minFreq = 11, lfu_maxAvgNum = 10, lfu_curAvgNum = 10,
      lfu_curTotalNum = 10, lfu_nodeMap = [(1, Some 2)],
      lfu_freqToFreqList = [(11, \<lparr>fl_freq = 11, fl_dummyHead = Some 0, fl_dummyTail = Some 1\<rparr>)],
      lfu_heap =
        [\<lparr>fn_freq = 1, fn_key = 0, fn_value = [], fn_prev = None, fn_next = Some 2\<rparr>,
         \<lparr>fn_freq = 1, fn_key = 0, fn_value = [], fn_prev = Some 2, fn_next = None\<rparr>,
         \<lparr>fn_freq = 11, fn_key = 1, fn_value = ''a'', fn_prev = Some 0, fn_next = Some 1\<rparr>]\<rparr>"

text \<open>A \<^verbatim>\<open>LfuCache<int, std::string>\<close> (\<^verbatim>\<open>maxAvgNum\<close> 10) with two entries of frequency 12
  in one list (sentinels 0 and 1; key 1 at address 4 before key 2 at address 5), and an
  empty list of frequency 7 (sentinels 2 and 3).\<close>

definition lfu_pair :: "(int, string) LfuCache" where
  "lfu_pair =
     \<lparr>lfu_capacity = 2, lfu_minFreq = 12, lfu_maxAvgNum = 10, lfu_curAvgNum = 11,
      lfu_curTotalNum = 23, lfu_nodeMap = [(1, Some 4), (2, Some 5)],
      lfu_freqToFreqList =
        [(12, \<lparr>fl_freq = 12, fl_dummyHead = Some 0, fl_dummyTail = Some 1\<rparr>),
         (7, \<lparr>fl_freq = 7, fl_dummyHead = Some 2, fl_dummyTail = Some 3\<rparr>)],
      lfu_heap =
        [\<lparr>fn_freq = 1, fn_key = 0, fn_value = [], fn_prev = None, fn_next = Some 4\<rparr>,
         \<lparr>fn_freq = 1, fn_key = 0, fn_value = [], fn_prev = Some 5, fn_next = None\<rparr>,
         \<lparr>fn_freq = 1, fn_key = 0, fn_value = [], fn_prev = None, fn_next = Some 3\<rparr>,
         \<lparr>fn_freq = 1, fn_key = 0, fn_value = [], fn_prev = Some 2, fn_next = None\<rparr>,
         \<lparr>fn_freq = 12, fn_key = 1, fn_value = ''a'', fn_prev = Some 0, fn_next = Some 5\<rparr>,
         \<lparr>fn_freq = 12, fn_key = 2, fn_value = ''b'', fn_prev = Some 4, fn_next = Some 1\<rparr>]\<rparr>"

text \<open>The \<^verbatim>\<open>ArcCache<int, std::string>\<close> of capacity 2 and threshold 2 after
  \<^verbatim>\<open>put(1,"a"); put(2,"b"); put(3,"c")\<close>: key 1 has been evicted from the LRU half into
  its ghost list.\<close>

definition arc_three_puts :: "(int, string) ArcCache" where
  "arc_three_puts =
     \<lparr>arc_capacity = 2, arc_transformThreshold = 2,
      arc_lfuPart =
        \<lparr>alfu_capacity = 2, alfu_ghostCapacity = 2, alfu_transformThreshold = 2,
         alfu_minFreq = 0, alfu_mainCache = [], alfu_ghostCache = [], alfu_freqMap = [],
         alfu_ghostHead = Some 0, alfu_ghostTail = Some 1,
         alfu_heap =
           [\<lparr>an_key = 0, an_value = [], an_accessCount = 1, an_prev = None, an_next = Some 1\<rparr>,
            \<lparr>an_key = 0, an_value = [], an_accessCount = 1, an_prev = Some 0, an_next = None\<rparr>]\<rparr>,
      arc_lruPart =
        \<lparr>alru_capacity = 2, alru_ghostCapacity = 2, alru_transformThreshold = 2,
         alru_main = [(2, ''b'', 1), (3, ''c'', 1)], alru_ghost = [1]\<rparr>\<rparr>"


text \<open>The same cache after a hit on key 1 in the ghost list of the LRU half.\<close>

definition arc_after_ghost_hit :: "(int, string) ArcCache" where
  "arc_after_ghost_hit =
     arc_three_puts
       \<lparr>arc_lfuPart := (arc_lfuPart arc_three_puts)\<lparr>alfu_capacity := 1\<rparr>,
        arc_lruPart := (arc_lruPart arc_three_puts)\<lparr>alru_capacity := 3, alru_ghost := []\<rparr>\<rparr>"


section \<open>Properties\<close>


subsection \<open>Facts shared by the proofs\<close>

lemmas lru_defs =
  LruCache_put_def LruCache_get_def LruCache_get_value_def LruCache_remove_def
  LruCache_updateExistingNode_def LruCache_move2MostRecent_def LruCache_removeNode_def
  LruCache_insertNode_def LruCache_new_def deref_def modify_def

lemmas lfu_defs =
  LfuCache_addFreqNum_def LfuCache_avg_def size_t_of_int_def int_of_size_t_def
  LfuCache_handleOverMaxAvgNum_def LfuCache_removeFromFreqList_def LfuCache_addToFreqList_def
  LfuCache_updateMinFreq_def FreqList_isEmpty_def FreqList_addNode_def FreqList_removeNode_def
  FreqList_new_def alloc_def deref_def modify_def INT8_MAX_def Let_def signed_divide_int_def

lemmas arc_defs =
  ArcCache_checkGhostCaches_def ArcCache_put_def ArcCache_get_def ArcCache_new_def
  ArcLruPart_checkGhost_def ArcLruPart_put_def ArcLruPart_get_def ArcLruPart_evict_def
  ArcLruPart_increaseCapacity_def ArcLruPart_decreaseCapacity_def ArcLruPart_new_def
  ArcLfuPart_checkGhost_def ArcLfuPart_put_def ArcLfuPart_get_def ArcLfuPart_new_def
  ArcLfuPart_initLists_def ArcLfuPart_increaseCapacity_def ArcLfuPart_decreaseCapacity_def
  ArcLfuPart_evictLeastFrequency_def ArcLfuPart_addNewNode_def ArcLfuPart_updateExistingNode_def
  ArcLfuPart_updateNodeFrequency_def ArcLfuPart_addToGhost_def ArcLfuPart_removeFromGhost_def
  ArcLfuPart_removeOldestGhost_def ArcNode_new_def ArcNode_default_def freqMap_at_def
  freqMap_begin_def alloc_def deref_def modify_def Let_def
  ArcCache_lruCapacity_def ArcCache_lfuCapacity_def ArcCache_capacitySum_def ArcCache_total_def

lemma LruCache_put_absent:
  "map_of (lru_nodeMap c) key = None \<Longrightarrow> LruCache_put key v c = Some c"
  by (simp add: LruCache_put_def)

lemma LruCache_step_empty:
  "lru_nodeMap c = [] \<Longrightarrow> LruCache_step dv x c = Some (LruCache_miss dv x, c)"
  by (cases x)
     (simp_all add: LruCache_put_def LruCache_get_def LruCache_get_value_def LruCache_remove_def)

lemma LruCache_run_empty:
  "lru_nodeMap c = [] \<Longrightarrow> LruCache_run dv xs c = Some (map (LruCache_miss dv) xs, c)"
  by (induction xs) (simp_all add: LruCache_step_empty)

lemma LfuCache_step_empty:
  "lfu_nodeMap c = [] \<Longrightarrow> lfu_freqToFreqList c = [] \<Longrightarrow>
     LfuCache_step dv x c = Some (LfuCache_miss dv x, c)"
  by (cases x)
     (simp_all add: LfuCache_put_def LfuCache_get_def LfuCache_get_value_def LfuCache_purge_def)

lemma LfuCache_run_empty:
  "lfu_nodeMap c = [] \<Longrightarrow> lfu_freqToFreqList c = [] \<Longrightarrow>
     LfuCache_run dv xs c = Some (map (LfuCache_miss dv) xs, c)"
  by (induction xs) (simp_all add: LfuCache_step_empty)

text \<open>The relinking functions touch the node store only.\<close>

lemma LruCache_removeNode_nodeMap:
  "LruCache_removeNode node c = Some c' \<Longrightarrow>
     lru_nodeMap c' = lru_nodeMap c \<and> lru_capacity c' = lru_capacity c"
  by (auto simp: LruCache_removeNode_def split: Option.bind_splits)

lemma LruCache_insertNode_nodeMap:
  "LruCache_insertNode node c = Some c' \<Longrightarrow>
     lru_nodeMap c' = lru_nodeMap c \<and> lru_capacity c' = lru_capacity c"
  by (auto simp: LruCache_insertNode_def split: Option.bind_splits)

lemma LruCache_move2MostRecent_nodeMap:
  "LruCache_move2MostRecent node c = Some c' \<Longrightarrow>
     lru_nodeMap c' = lru_nodeMap c \<and> lru_capacity c' = lru_capacity c"
  by (auto simp: LruCache_move2MostRecent_def split: Option.bind_splits
      dest!: LruCache_removeNode_nodeMap LruCache_insertNode_nodeMap)

text \<open>No public operation of \<^verbatim>\<open>LruCache\<close> or \<^verbatim>\<open>LfuCache\<close> lets the key map grow or changes
  the capacity, from any state.\<close>

lemma LruCache_step_size:
  "LruCache_step dv x c = Some (a, c') \<Longrightarrow>
     length (lru_nodeMap c') \<le> length (lru_nodeMap c) \<and> lru_capacity c' = lru_capacity c"
  by (cases x)
     (auto simp: LruCache_put_def LruCache_get_def LruCache_get_value_def LruCache_remove_def
        LruCache_updateExistingNode_def length_delete_le
      split: Option.bind_splits if_splits option.splits
      dest!: LruCache_move2MostRecent_nodeMap LruCache_removeNode_nodeMap)

lemma LruCache_run_size:
  "LruCache_run dv xs c = Some (as, c') \<Longrightarrow>
     length (lru_nodeMap c') \<le> length (lru_nodeMap c) \<and> lru_capacity c' = lru_capacity c"
proof (induction xs arbitrary: c as)
  case Nil
  then show ?case by simp
next
  case (Cons x xs)
  from Cons.prems obtain a c1 bs where
    step: "LruCache_step dv x c = Some (a, c1)" and
    rest: "LruCache_run dv xs c1 = Some (bs, c')"
    by (auto split: option.splits)
  from LruCache_step_size [OF step] Cons.IH [OF rest] show ?case by simp
qed

lemma LfuCache_step_size:
  "LfuCache_step dv x c = Some (a, c') \<Longrightarrow>
     length (lfu_nodeMap c') \<le> length (lfu_nodeMap c) \<and> lfu_capacity c' = lfu_capacity c"
  by (cases x)
     (auto simp: LfuCache_put_def LfuCache_get_def LfuCache_get_value_def LfuCache_purge_def
      split: Option.bind_splits if_splits option.splits)

lemma LfuCache_run_size:
  "LfuCache_run dv xs c = Some (as, c') \<Longrightarrow>
     length (lfu_nodeMap c') \<le> length (lfu_nodeMap c) \<and> lfu_capacity c' = lfu_capacity c"
proof (induction xs arbitrary: c as)
  case Nil
  then show ?case by simp
next
  case (Cons x xs)
  from Cons.prems obtain a c1 bs where
    step: "LfuCache_step dv x c = Some (a, c1)" and
    rest: "LfuCache_run dv xs c1 = Some (bs, c')"
    by (auto split: option.splits)
  from LfuCache_step_size [OF step] Cons.IH [OF rest] show ?case by simp
qed

text \<open>\<^verbatim>\<open>LfuCache::put\<close> and \<^verbatim>\<open>LfuCache::get\<close> from any state: a put changes no frequency,
  no list and no counter, and a get that finds its key hands back the out parameter it
  was given and the cache it was given.\<close>

lemma LfuCache_put_absent:
  "map_of (lfu_nodeMap c) key = None \<Longrightarrow> LfuCache_put key v c = Some c"
  by (simp add: LfuCache_put_def)

lemma LfuCache_put_keeps_frequencies:
  assumes "LfuCache_put key v c = Some c'"
  shows "map fn_freq (lfu_heap c') = map fn_freq (lfu_heap c)
     \<and> lfu_minFreq c' = lfu_minFreq c \<and> lfu_curTotalNum c' = lfu_curTotalNum c
     \<and> lfu_curAvgNum c' = lfu_curAvgNum c
     \<and> lfu_freqToFreqList c' = lfu_freqToFreqList c \<and> lfu_nodeMap c' = lfu_nodeMap c"
  using assms
  by (auto simp: LfuCache_put_def modify_def map_update list_update_same_conv
      split: if_splits option.splits Option.bind_splits)

lemma LfuCache_get_found:
  "map_of (lfu_nodeMap c) key = Some node \<Longrightarrow> LfuCache_get key out c = Some (True, out, c)"
  by (simp add: LfuCache_get_def)

text \<open>\<^verbatim>\<open>purge\<close> assigns to the two maps and to nothing else.\<close>

lemma LfuCache_purge_scalars:
  "LfuCache_purge c = Some c' \<Longrightarrow>
     lfu_minFreq c' = lfu_minFreq c \<and> lfu_curTotalNum c' = lfu_curTotalNum c \<and>
     lfu_curAvgNum c' = lfu_curAvgNum c \<and> lfu_nodeMap c' = [] \<and> lfu_freqToFreqList c' = []"
  by (auto simp: LfuCache_purge_def)


text \<open>No function of \<^verbatim>\<open>ArcLfuPart\<close> but \<^verbatim>\<open>increaseCapacity\<close> and \<^verbatim>\<open>decreaseCapacity\<close>
  assigns to \<^verbatim>\<open>capacity_\<close>, and the same holds of the model of \<^verbatim>\<open>ArcLruPart\<close>.\<close>

lemma ArcLfuPart_removeFromGhost_capacity:
  "ArcLfuPart_removeFromGhost node c = Some c' \<Longrightarrow> alfu_capacity c' = alfu_capacity c"
  by (auto simp: ArcLfuPart_removeFromGhost_def split: Option.bind_splits)

lemma ArcLfuPart_addToGhost_capacity:
  "ArcLfuPart_addToGhost node c = Some c' \<Longrightarrow> alfu_capacity c' = alfu_capacity c"
  by (auto simp: ArcLfuPart_addToGhost_def split: Option.bind_splits)

lemma ArcLfuPart_removeOldestGhost_capacity:
  "ArcLfuPart_removeOldestGhost c = Some c' \<Longrightarrow> alfu_capacity c' = alfu_capacity c"
  by (auto simp: ArcLfuPart_removeOldestGhost_def Let_def
      split: Option.bind_splits if_splits dest!: ArcLfuPart_removeFromGhost_capacity)

lemma ArcLfuPart_evictLeastFrequency_capacity:
  "ArcLfuPart_evictLeastFrequency c = Some c' \<Longrightarrow> alfu_capacity c' = alfu_capacity c"
  by (auto simp: ArcLfuPart_evictLeastFrequency_def Let_def
      split: Option.bind_splits if_splits list.splits
      dest!: ArcLfuPart_removeOldestGhost_capacity ArcLfuPart_addToGhost_capacity)

lemma ArcLfuPart_decreaseCapacity_capacity:
  "ArcLfuPart_decreaseCapacity c = Some (ok, c') \<Longrightarrow>
     ok = (alfu_capacity c \<noteq> 0) \<and>
     alfu_capacity c' = (if ok then alfu_capacity c - 1 else alfu_capacity c)"
  by (auto simp: ArcLfuPart_decreaseCapacity_def
      split: Option.bind_splits if_splits dest!: ArcLfuPart_evictLeastFrequency_capacity)

lemma ArcLfuPart_checkGhost_capacity:
  "ArcLfuPart_checkGhost key c = Some (g, c') \<Longrightarrow>
     g = (map_of (alfu_ghostCache c) key \<noteq> None) \<and> alfu_capacity c' = alfu_capacity c"
  by (auto simp: ArcLfuPart_checkGhost_def
      split: Option.bind_splits option.splits dest!: ArcLfuPart_removeFromGhost_capacity)

lemma ArcLfuPart_updateNodeFrequency_capacity:
  "ArcLfuPart_updateNodeFrequency node c = Some c' \<Longrightarrow> alfu_capacity c' = alfu_capacity c"
  by (auto simp: ArcLfuPart_updateNodeFrequency_def Let_def split: Option.bind_splits if_splits)

lemma ArcLfuPart_put_capacity:
  "ArcLfuPart_put key v c = Some (r, c') \<Longrightarrow> alfu_capacity c' = alfu_capacity c"
  by (auto simp: ArcLfuPart_put_def ArcLfuPart_updateExistingNode_def ArcLfuPart_addNewNode_def
        alloc_def Let_def
      split: Option.bind_splits if_splits option.splits
      dest!: ArcLfuPart_evictLeastFrequency_capacity)

lemma ArcLfuPart_get_capacity:
  "ArcLfuPart_get key out c = Some (r, v, c') \<Longrightarrow> alfu_capacity c' = alfu_capacity c"
  by (auto simp: ArcLfuPart_get_def
      split: Option.bind_splits option.splits dest!: ArcLfuPart_updateNodeFrequency_capacity)

lemma ArcLruPart_evict_capacity: "alru_capacity (ArcLruPart_evict c) = alru_capacity c"
  by (simp add: ArcLruPart_evict_def split: list.splits)

lemma ArcLruPart_put_capacity:
  "ArcLruPart_put key v c = (r, c') \<Longrightarrow> alru_capacity c' = alru_capacity c"
  by (auto simp: ArcLruPart_put_def ArcLruPart_evict_capacity Let_def
      split: option.splits if_splits)

lemma ArcLruPart_get_capacity:
  "ArcLruPart_get key out c = (r, v, t, c') \<Longrightarrow> alru_capacity c' = alru_capacity c"
  by (auto simp: ArcLruPart_get_def split: option.splits)

lemma ArcLruPart_checkGhost_capacity:
  "ArcLruPart_checkGhost key c = (g, c') \<Longrightarrow>
     g = (key \<in> set (alru_ghost c)) \<and> alru_capacity c' = alru_capacity c"
  by (auto simp: ArcLruPart_checkGhost_def split: if_splits)

lemma ArcLruPart_decreaseCapacity_capacity:
  "ArcLruPart_decreaseCapacity c = (ok, c') \<Longrightarrow>
     ok = (alru_capacity c \<noteq> 0) \<and>
     alru_capacity c' = (if ok then alru_capacity c - 1 else alru_capacity c)"
  by (auto simp: ArcLruPart_decreaseCapacity_def ArcLruPart_evict_capacity Let_def split: if_splits)

lemma ArcCache_checkGhostCaches_capacities:
  assumes "ArcCache_checkGhostCaches key c = Some (g, c')"
  shows "(ArcCache_lruCapacity c', ArcCache_lfuCapacity c') =
     (if key \<in> set (alru_ghost (arc_lruPart c))
      then (if ArcCache_lfuCapacity c \<noteq> 0
            then (ArcCache_lruCapacity c + 1, ArcCache_lfuCapacity c - 1)
            else (ArcCache_lruCapacity c, ArcCache_lfuCapacity c))
      else if map_of (alfu_ghostCache (arc_lfuPart c)) key \<noteq> None
      then (if ArcCache_lruCapacity c \<noteq> 0
            then (ArcCache_lruCapacity c - 1, ArcCache_lfuCapacity c + 1)
            else (ArcCache_lruCapacity c, ArcCache_lfuCapacity c))
      else (ArcCache_lruCapacity c, ArcCache_lfuCapacity c))"
  using assms
  unfolding ArcCache_checkGhostCaches_def ArcCache_lruCapacity_def ArcCache_lfuCapacity_def
  by (auto simp: ArcLruPart_increaseCapacity_def ArcLfuPart_increaseCapacity_def
      split: prod.splits Option.bind_splits if_splits
      dest!: ArcLruPart_checkGhost_capacity ArcLfuPart_checkGhost_capacity
             ArcLfuPart_decreaseCapacity_capacity ArcLruPart_decreaseCapacity_capacity)


lemma ArcCache_checkGhostCaches_sum:
  assumes "ArcCache_checkGhostCaches key c = Some (g, c')"
  shows "ArcCache_capacitySum c' = ArcCache_capacitySum c"
  using ArcCache_checkGhostCaches_capacities [OF assms]
  by (auto simp: ArcCache_capacitySum_def split: if_splits)

lemma ArcCache_put_capacities:
  assumes "ArcCache_put key v c = Some c'"
  shows "\<exists>g c1. ArcCache_checkGhostCaches key c = Some (g, c1)
     \<and> ArcCache_lruCapacity c' = ArcCache_lruCapacity c1
     \<and> ArcCache_lfuCapacity c' = ArcCache_lfuCapacity c1"
  using assms
  unfolding ArcCache_put_def ArcCache_lruCapacity_def ArcCache_lfuCapacity_def
  by (auto split: prod.splits Option.bind_splits if_splits
      dest!: ArcLfuPart_put_capacity ArcLruPart_put_capacity)

lemma ArcCache_get_capacities:
  assumes "ArcCache_get key out c = Some (r, w, c')"
  shows "\<exists>g c1. ArcCache_checkGhostCaches key c = Some (g, c1)
     \<and> ArcCache_lruCapacity c' = ArcCache_lruCapacity c1
     \<and> ArcCache_lfuCapacity c' = ArcCache_lfuCapacity c1"
  using assms
  unfolding ArcCache_get_def ArcCache_lruCapacity_def ArcCache_lfuCapacity_def
  by (auto simp: split: prod.splits Option.bind_splits if_splits
      dest!: ArcLfuPart_put_capacity ArcLfuPart_get_capacity ArcLruPart_get_capacity)

lemma ArcCache_checkGhostCaches_total:
  assumes "ArcCache_checkGhostCaches key c = Some (g, c')"
    and "ArcCache_total c < 2 ^ 64"
  shows "ArcCache_total c' = ArcCache_total c"
proof -
  let ?a = "ArcCache_lruCapacity c" and ?b = "ArcCache_lfuCapacity c"
  have up: "unat (x + 1) + unat (y - 1) = unat x + unat y"
    if "y \<noteq> 0" "unat x + unat y < 2 ^ 64" for x y :: "64 word"
  proof -
    from that(1) have y: "0 < unat y" by (simp add: unat_gt_0)
    with that(2) have "unat x + unat (1 :: 64 word) < 2 ^ LENGTH(64)" by simp
    then have "unat (x + 1) = unat x + unat (1 :: 64 word)"
      by (simp only: unat_add_lem)
    moreover have "unat (y - 1) = unat y - 1" using that(1) by (rule unat_minus_one)
    ultimately show ?thesis using y by simp
  qed
  from ArcCache_checkGhostCaches_capacities [OF assms(1)]
  consider
      (same) "ArcCache_lruCapacity c' = ?a" "ArcCache_lfuCapacity c' = ?b"
    | (to_lru) "?b \<noteq> 0" "ArcCache_lruCapacity c' = ?a + 1" "ArcCache_lfuCapacity c' = ?b - 1"
    | (to_lfu) "?a \<noteq> 0" "ArcCache_lruCapacity c' = ?a - 1" "ArcCache_lfuCapacity c' = ?b + 1"
    by (auto split: if_splits)
  then show ?thesis
  proof cases
    case same
    then show ?thesis by (simp add: ArcCache_total_def)
  next
    case to_lru
    with up [of ?b ?a] assms(2) show ?thesis by (simp add: ArcCache_total_def)
  next
    case to_lfu
    with up [of ?a ?b] assms(2) show ?thesis by (simp add: ArcCache_total_def)
  qed
qed


subsection \<open>Put, then get\<close>

text \<open>Claim C1 (put(k,v) followed at once by get(k) returns v, for a cache of capacity at
  least 1) fails on the code. In a \<^verbatim>\<open>LruCache\<close> and in a \<^verbatim>\<open>LfuCache\<close> of capacity 1, as
  constructed, \<^verbatim>\<open>put(1,"a")\<close> returns with the cache unchanged, and the \<^verbatim>\<open>get(1, out)\<close>
  that follows returns false and leaves \<^verbatim>\<open>out\<close> as it was.\<close>

theorem put_then_get_misses:
  "LruCache_run [] [LruPut (1::int) ''a'', LruGet 1 ''z''] (LruCache_new 1)
     = Some ([Returned, GetReturned False ''z''], LruCache_new 1)
   \<and> LfuCache_run [] [LfuPut (1::int) ''a'', LfuGet 1 ''z''] (LfuCache_new 1 10)
     = Some ([Returned, GetReturned False ''z''], LfuCache_new 1 10)"
  by (simp add: lru_defs LfuCache_put_def LfuCache_get_def LfuCache_new_def)


subsection \<open>Get on a key that is present\<close>

text \<open>Claim C2 (get(k, out) on a present key returns true and copies the entry's value
  into out) fails on \<^verbatim>\<open>LfuCache::get\<close>. The cache \<open>lfu_holding\<close> holds key 1 with value
  \<^verbatim>\<open>"a"\<close>; \<^verbatim>\<open>get(1, out)\<close> with \<^verbatim>\<open>out = "z"\<close> returns true, leaves \<^verbatim>\<open>out\<close> at \<^verbatim>\<open>"z"\<close> and
  leaves the cache, the frequency of the entry included, as it was.\<close>

theorem LfuCache_get_hit_copies_nothing:
  "map_of (lfu_nodeMap lfu_holding) 1 = Some (Some 2)
   \<and> map_option fn_value (deref (lfu_heap lfu_holding) (Some 2)) = Some ''a''
   \<and> LfuCache_get 1 ''z'' lfu_holding = Some (True, ''z'', lfu_holding)"
  by (simp add: lfu_holding_def LfuCache_get_def deref_def)


text \<open>The rest of the claim holds: on an absent key both \<^verbatim>\<open>get\<close> functions return false
  and leave the out parameter and the cache as they were, and \<^verbatim>\<open>LruCache::get\<close>, on the
  cache \<open>lru_holding\<close> that holds key 1 with \<^verbatim>\<open>"a"\<close>, returns true and copies the value.\<close>

lemma LruCache_get_absent:
  "map_of (lru_nodeMap c) key = None \<Longrightarrow> LruCache_get key out c = Some (False, out, c)"
  by (simp add: LruCache_get_def)

lemma LfuCache_get_absent:
  "map_of (lfu_nodeMap c) key = None \<Longrightarrow> LfuCache_get key out c = Some (False, out, c)"
  by (simp add: LfuCache_get_def)

lemma LruCache_get_hit_copies:
  "(case LruCache_get 1 ''z'' (lru_holding [] ''a'') of
      None \<Rightarrow> False
    | Some (found, out, c) \<Rightarrow> found \<and> out = ''a'')"
  by (simp add: lru_holding_def lru_defs)


subsection \<open>Put on a full LruCache\<close>

text \<open>Claim C5 (in a full \<^verbatim>\<open>LruCache\<close> a put of an absent key evicts the least recently
  used entry and links the new one) fails on the code. The cache \<open>lru_holding\<close> has
  capacity 1 and holds key 1; \<^verbatim>\<open>put(2,"b")\<close> returns with the cache unchanged: key 1 is
  still held and key 2 is not.\<close>

theorem LruCache_put_when_full_does_nothing:
  "int (length (lru_nodeMap (lru_holding [] ''a''))) = lru_capacity (lru_holding [] ''a'')
   \<and> map_of (lru_nodeMap (lru_holding [] ''a'')) 1 = Some (Some 2)
   \<and> map_of (lru_nodeMap (lru_holding [] ''a'')) 2 = None
   \<and> LruCache_put 2 ''b'' (lru_holding [] ''a'') = Some (lru_holding [] ''a'')"
  by (simp add: lru_holding_def LruCache_put_def)


text \<open>The class has the function that the claim describes: \<^verbatim>\<open>addNewNode\<close>, called on the
  same cache with key 2, removes key 1 from the list and the map, maps key 2 to a new node
  with access count 1, and makes \<^verbatim>\<open>next_\<close> of the head sentinel and \<^verbatim>\<open>prev_\<close> of the tail
  sentinel point to it. \<^verbatim>\<open>put\<close> does not call it.\<close>

lemma LruCache_addNewNode_evicts:
  "(case LruCache_addNewNode 2 ''b'' (lru_holding [] ''a'') of
      None \<Rightarrow> False
    | Some c \<Rightarrow>
        lru_nodeMap c = [(2, Some 3)]
        \<and> map_option ln_value (deref (lru_heap c) (Some 3)) = Some ''b''
        \<and> map_option ln_accessCount (deref (lru_heap c) (Some 3)) = Some 1
        \<and> map_option ln_next (deref (lru_heap c) (lru_dummyHead c)) = Some (Some 3)
        \<and> map_option ln_prev (deref (lru_heap c) (lru_dummyTail c)) = Some (Some 3))"
  by (simp add: lru_holding_def lru_defs LruCache_addNewNode_def LruCache_evictLeastRecent_def
      LruNode_new_def alloc_def size_t_of_int_def)


subsection \<open>Put on a key that LfuCache holds\<close>

text \<open>Claim C7 (\<^verbatim>\<open>LfuCache::put\<close> on a present key overwrites the value and then promotes
  the entry as a get does) fails on the code. On \<open>lfu_holding\<close>, \<^verbatim>\<open>put(1,"b")\<close> stores the
  value in the node at address 2 and changes nothing else: the frequency of the entry is
  still 1, it is still in the list of frequency 1, and \<^verbatim>\<open>minFreq_\<close>, \<^verbatim>\<open>curTotalNum_\<close> and
  \<^verbatim>\<open>curAvgNum_\<close> are as before.\<close>

theorem LfuCache_put_hit_only_overwrites:
  "LfuCache_put 1 ''b'' lfu_holding =
     Some (lfu_holding\<lparr>lfu_heap :=
             (lfu_heap lfu_holding)[2 := (lfu_heap lfu_holding ! 2)\<lparr>fn_value := ''b''\<rparr>]\<rparr>)
   \<and> fn_freq ((lfu_heap lfu_holding)[2 := (lfu_heap lfu_holding ! 2)\<lparr>fn_value := ''b''\<rparr>] ! 2) = 1"
  by (simp add: lfu_holding_def LfuCache_put_def modify_def)


subsection \<open>Aging\<close>

text \<open>Claim C8 (when the average exceeds \<^verbatim>\<open>maxAvgNum\<close> after a bump, every frequency
  becomes max(1, freq - maxAvgNum/2), every entry is at the back of its new list, and
  \<^verbatim>\<open>minFreq_\<close> is the least frequency with a non-empty list) fails on the code. On
  \<open>lfu_hot\<close> the bump raises the average to 1001 > 1000; aging moves the one entry from
  frequency 1001 to 501, the list of 1001 is then empty and the list of 501 is not, and
  \<^verbatim>\<open>updateMinFreq\<close> leaves \<^verbatim>\<open>minFreq_\<close> at 1, not at 501: its search starts from
  \<^verbatim>\<open>INT8_MAX\<close>, which no frequency above 127 lowers, and it takes the untouched start value
  for an empty cache.\<close>

theorem LfuCache_aging_minFreq_above_127:
  "(case LfuCache_addFreqNum 0 [] lfu_hot of
      None \<Rightarrow> False
    | Some c \<Rightarrow>
        lfu_minFreq c = 1
        \<and> map fn_freq (lfu_heap c) = [1, 1, 1, 1, 501]
        \<and> map (\<lambda>(f, l). (f, FreqList_isEmpty l (lfu_heap c))) (lfu_freqToFreqList c)
            = [(1001, Some True), (501, Some False)])"
  by (simp add: lfu_hot_def lfu_defs)

text \<open>Two more inputs on which aging does not do what claim C8 says. On \<open>lfu_eleven\<close>
  the new frequency 6 has no list: \<^verbatim>\<open>addToFreqList\<close> creates one and then dereferences
  the end iterator. On \<open>lfu_pair\<close> both entries move to the list of frequency 7, and
  \<^verbatim>\<open>FreqList::addNode\<close>, which sets \<^verbatim>\<open>dummyHead_->prev\<close> and leaves \<^verbatim>\<open>dummyTail_->prev\<close>
  at the head sentinel, links the second entry (address 5) in place of the first (address
  4): the list runs from its head to the second entry to its tail.\<close>

lemma LfuCache_aging_new_list_undefined:
  "LfuCache_addFreqNum 0 [] lfu_eleven = None"
  by (simp add: lfu_eleven_def lfu_defs)

lemma LfuCache_aging_second_entry_replaces_first:
  "(case LfuCache_addFreqNum 0 [] lfu_pair of
      None \<Rightarrow> False
    | Some c \<Rightarrow>
        map fn_freq (lfu_heap c) = [1, 1, 1, 1, 7, 7]
        \<and> map fn_next (lfu_heap c) = [Some 1, None, Some 5, None, Some 3, Some 3])"
  by code_simp


subsection \<open>LruKCache: put on a key of the main cache\<close>

text \<open>Claim C9 (a put on a key that the main cache holds overwrites the value there and
  leaves the history as it was) fails on the code. \<^verbatim>\<open>put\<close> takes a key for resident when
  the value read from the main cache differs from \<^verbatim>\<open>""\<close>. In \<open>lruk_resident_empty\<close> the
  main cache holds key 1 with the empty string: \<^verbatim>\<open>put(1,"b")\<close> returns, and the main cache
  still holds the empty string for key 1.\<close>

theorem LruKCache_put_resident_not_overwritten:
  "(case LruKCache_put 1 ''b'' lruk_resident_empty of
      None \<Rightarrow> False
    | Some c \<Rightarrow>
        map_of (lru_nodeMap (lruk_main c)) 1 = Some (Some 2)
        \<and> map_option ln_value (deref (lru_heap (lruk_main c)) (Some 2)) = Some []
        \<and> lruk_historyList c = lruk_historyList lruk_resident_empty)"
  by (simp add: lruk_resident_empty_def lru_holding_def LruKCache_put_def lru_defs
      size_t_of_int_def)

text \<open>With a non-empty value the branch that overwrites is taken, and it does not return:
  the statements on the history follow. In \<open>lruk_resident_seen\<close> the call does not get
  that far: \<^verbatim>\<open>LruCache::get\<close> has relinked the node with \<^verbatim>\<open>next_\<close> read from the tail
  sentinel, a null pointer, and the \<^verbatim>\<open>removeNode\<close> of the overwrite dereferences it.\<close>

lemma LruKCache_put_resident_undefined:
  "LruKCache_put 1 ''b'' lruk_resident_seen = None"
  by (simp add: lruk_resident_seen_def lru_holding_def LruKCache_put_def lru_defs
      size_t_of_int_def)


subsection \<open>Size and capacity\<close>

text \<open>Claim C3 (after every operation of every cache the key map has at most capacity
  entries) is false as stated for a cache constructed with a negative capacity, which the
  constructors accept: the map of such a cache is empty, and 0 is more than the capacity.
  Counterexample: \<^verbatim>\<open>LruCache(-1)\<close> after \<^verbatim>\<open>put(1,"a")\<close>.\<close>

theorem size_exceeds_negative_capacity:
  "LruCache_run [] [LruPut (1::int) ''a''] (LruCache_new (- 1))
     = Some ([Returned], LruCache_new (- 1))
   \<and> \<not> int (length (lru_nodeMap (LruCache_new (- 1) :: (int, string) LruCache)))
         \<le> lru_capacity (LruCache_new (- 1) :: (int, string) LruCache)"
  by (simp add: lru_defs)


text \<open>Claim C3 as amended: for every \<^verbatim>\<open>LruCache\<close> and every \<^verbatim>\<open>LfuCache\<close> constructed
  with a capacity of at least 0, and every sequence of their public operations (put, both
  forms of get, remove; for \<^verbatim>\<open>LfuCache\<close> purge in place of remove), the sequence returns
  and the key map then has at most capacity entries. Every prefix of a sequence is a
  sequence, so the bound holds after each operation. (From any state whatever, no
  operation lets the map grow or changes the capacity: \<open>LruCache_run_size\<close>,
  \<open>LfuCache_run_size\<close>.)\<close>

theorem size_at_most_capacity:
  fixes dv :: 'v and xs :: "('k, 'v) LruCache_op list"
    and dw :: 'w and ys :: "('j, 'w) LfuCache_op list"
  assumes cap: "0 \<le> capacity"
  shows "(\<exists>as c. LruCache_run dv xs (LruCache_new capacity) = Some (as, c)
            \<and> int (length (lru_nodeMap c)) \<le> lru_capacity c)
         \<and> (\<exists>bs d. LfuCache_run dw ys (LfuCache_new capacity maxAvgNum) = Some (bs, d)
            \<and> int (length (lfu_nodeMap d)) \<le> lfu_capacity d)"
proof -
  let ?lru = "LruCache_new capacity :: ('k, 'v) LruCache"
  let ?lfu = "LfuCache_new capacity maxAvgNum :: ('j, 'w) LfuCache"
  have lru: "LruCache_run dv xs ?lru = Some (map (LruCache_miss dv) xs, ?lru)"
    by (rule LruCache_run_empty) (simp add: LruCache_new_def)
  have lfu: "LfuCache_run dw ys ?lfu = Some (map (LfuCache_miss dw) ys, ?lfu)"
    by (rule LfuCache_run_empty) (simp_all add: LfuCache_new_def)
  from LruCache_run_size [OF lru] cap
  have "int (length (lru_nodeMap ?lru)) \<le> lru_capacity ?lru"
    by (simp add: LruCache_new_def)
  moreover from LfuCache_run_size [OF lfu] cap
  have "int (length (lfu_nodeMap ?lfu)) \<le> lfu_capacity ?lfu"
    by (simp add: LfuCache_new_def)
  ultimately show ?thesis using lru lfu by blast
qed

text \<open>Witness for claim C3: capacity 2, three operations on each cache.\<close>

theorem size_at_most_capacity_witness:
  "(0::int) \<le> 2
   \<and> LruCache_run [] [LruPut (1::int) ''a'', LruGet 1 ''z'', LruRemove 1] (LruCache_new 2)
       = Some ([Returned, GetReturned False ''z'', Returned], LruCache_new 2)
   \<and> int (length (lru_nodeMap (LruCache_new 2 :: (int, string) LruCache))) \<le> 2
   \<and> LfuCache_run [] [LfuPut (1::int) ''a'', LfuGet 1 ''z'', LfuPurge] (LfuCache_new 2 10)
       = Some ([Returned, GetReturned False ''z'', Returned], LfuCache_new 2 10)
   \<and> int (length (lfu_nodeMap (LfuCache_new 2 10 :: (int, string) LfuCache))) \<le> 2"
  using size_at_most_capacity
    [where capacity = 2 and dv = "[] :: string"
       and xs = "[LruPut (1::int) ''a'', LruGet 1 ''z'', LruRemove 1]"
       and dw = "[] :: string"
       and ys = "[LfuPut (1::int) ''a'', LfuGet 1 ''z'', LfuPurge]" and maxAvgNum = 10]
  by (simp add: lru_defs LfuCache_put_def LfuCache_get_def LfuCache_purge_def LfuCache_new_def)


subsection \<open>Caches of capacity 0 or less\<close>




subsection \<open>Purge\<close>


text \<open>From any state \<^verbatim>\<open>purge\<close> hands back the three scalars it was given
  (\<open>LfuCache_purge_scalars\<close>). On a cache as constructed, the only state that calls of
  put, get and purge produce, they are the initial values already.\<close>

lemma LfuCache_purge_constructed:
  "LfuCache_purge (LfuCache_new capacity maxAvgNum) = Some (LfuCache_new capacity maxAvgNum)"
  by (simp add: LfuCache_purge_def LfuCache_new_def)


subsection \<open>The capacities of the halves of ArcCache\<close>

text \<open>Claim C4: in \<^verbatim>\<open>ArcCache\<close>, from every state, \<^verbatim>\<open>checkGhostCaches\<close>, \<^verbatim>\<open>put\<close> and \<^verbatim>\<open>get\<close>
  leave the sum of the capacities of the two halves unchanged, both as \<^verbatim>\<open>size_t\<close>
  arithmetic computes it (\<open>ArcCache_capacitySum\<close>) and, when the sum of the two numbers
  is below \<open>2 ^ 64\<close>, as a number (\<open>ArcCache_total\<close>). A hit in the ghost list of the LRU
  half adds 1 to the capacity of the LRU half and takes 1 from the LFU half exactly when
  the capacity of the LFU half is not 0, which is when its \<^verbatim>\<open>decreaseCapacity\<close> returns
  true; otherwise a hit in the ghost list of the LFU half does the same in the other
  direction; a refused shift and a key in neither ghost list leave both capacities as
  they were. The LFU half and the coordinator are the code; the LRU half is the model of
  the specification's section 4.4.\<close>

theorem ArcCache_capacity_sum_preserved:
  "(ArcCache_checkGhostCaches key c = Some (inGhost, afterCheck) \<longrightarrow>
      ArcCache_capacitySum afterCheck = ArcCache_capacitySum c
      \<and> (ArcCache_total c < 2 ^ 64 \<longrightarrow> ArcCache_total afterCheck = ArcCache_total c)
      \<and> (ArcCache_lruCapacity afterCheck, ArcCache_lfuCapacity afterCheck) =
          (if key \<in> set (alru_ghost (arc_lruPart c))
           then (if ArcCache_lfuCapacity c \<noteq> 0
                 then (ArcCache_lruCapacity c + 1, ArcCache_lfuCapacity c - 1)
                 else (ArcCache_lruCapacity c, ArcCache_lfuCapacity c))
           else if map_of (alfu_ghostCache (arc_lfuPart c)) key \<noteq> None
           then (if ArcCache_lruCapacity c \<noteq> 0
                 then (ArcCache_lruCapacity c - 1, ArcCache_lfuCapacity c + 1)
                 else (ArcCache_lruCapacity c, ArcCache_lfuCapacity c))
           else (ArcCache_lruCapacity c, ArcCache_lfuCapacity c)))
   \<and> (ArcCache_put key v c = Some afterPut \<longrightarrow>
      ArcCache_capacitySum afterPut = ArcCache_capacitySum c
      \<and> (ArcCache_total c < 2 ^ 64 \<longrightarrow> ArcCache_total afterPut = ArcCache_total c))
   \<and> (ArcCache_get key out c = Some (found, w, afterGet) \<longrightarrow>
      ArcCache_capacitySum afterGet = ArcCache_capacitySum c
      \<and> (ArcCache_total c < 2 ^ 64 \<longrightarrow> ArcCache_total afterGet = ArcCache_total c))"
proof (intro conjI impI)
  assume h: "ArcCache_checkGhostCaches key c = Some (inGhost, afterCheck)"
  show "ArcCache_capacitySum afterCheck = ArcCache_capacitySum c"
    by (rule ArcCache_checkGhostCaches_sum [OF h])
  show "(ArcCache_lruCapacity afterCheck, ArcCache_lfuCapacity afterCheck) =
          (if key \<in> set (alru_ghost (arc_lruPart c))
           then (if ArcCache_lfuCapacity c \<noteq> 0
                 then (ArcCache_lruCapacity c + 1, ArcCache_lfuCapacity c - 1)
                 else (ArcCache_lruCapacity c, ArcCache_lfuCapacity c))
           else if map_of (alfu_ghostCache (arc_lfuPart c)) key \<noteq> None
           then (if ArcCache_lruCapacity c \<noteq> 0
                 then (ArcCache_lruCapacity c - 1, ArcCache_lfuCapacity c + 1)
                 else (ArcCache_lruCapacity c, ArcCache_lfuCapacity c))
           else (ArcCache_lruCapacity c, ArcCache_lfuCapacity c))"
    by (rule ArcCache_checkGhostCaches_capacities [OF h])
  show "ArcCache_total afterCheck = ArcCache_total c" if "ArcCache_total c < 2 ^ 64"
    by (rule ArcCache_checkGhostCaches_total [OF h that])
next
  assume h: "ArcCache_put key v c = Some afterPut"
  from ArcCache_put_capacities [OF h] obtain g c' where
    g: "ArcCache_checkGhostCaches key c = Some (g, c')" and
    eq: "ArcCache_lruCapacity afterPut = ArcCache_lruCapacity c'"
        "ArcCache_lfuCapacity afterPut = ArcCache_lfuCapacity c'"
    by blast
  from ArcCache_checkGhostCaches_sum [OF g] eq
  show "ArcCache_capacitySum afterPut = ArcCache_capacitySum c"
    by (simp add: ArcCache_capacitySum_def)
  show "ArcCache_total afterPut = ArcCache_total c" if "ArcCache_total c < 2 ^ 64"
    using ArcCache_checkGhostCaches_total [OF g that] eq by (simp add: ArcCache_total_def)
next
  assume h: "ArcCache_get key out c = Some (found, w, afterGet)"
  from ArcCache_get_capacities [OF h] obtain g c' where
    g: "ArcCache_checkGhostCaches key c = Some (g, c')" and
    eq: "ArcCache_lruCapacity afterGet = ArcCache_lruCapacity c'"
        "ArcCache_lfuCapacity afterGet = ArcCache_lfuCapacity c'"
    by blast
  from ArcCache_checkGhostCaches_sum [OF g] eq
  show "ArcCache_capacitySum afterGet = ArcCache_capacitySum c"
    by (simp add: ArcCache_capacitySum_def)
  show "ArcCache_total afterGet = ArcCache_total c" if "ArcCache_total c < 2 ^ 64"
    using ArcCache_checkGhostCaches_total [OF g that] eq by (simp add: ArcCache_total_def)
qed


text \<open>The state \<open>arc_three_puts\<close> is the one the three puts produce.\<close>

lemma arc_three_puts_reached:
  "do { c0 \<leftarrow> ArcCache_new (0::int) [] 2 2;
        c1 \<leftarrow> ArcCache_put 1 ''a'' c0;
        c2 \<leftarrow> ArcCache_put 2 ''b'' c1;
        ArcCache_put 3 ''c'' c2 } = Some arc_three_puts"
  by (simp add: arc_three_puts_def arc_defs)


text \<open>A refused shift on a cache that calls produce: capacity 1 and threshold 2, after
  \<^verbatim>\<open>put(1,"a"); put(2,"b"); put(1,"a"); put(3,"c")\<close> the capacities are (2, 0) and key 2
  is in the ghost list of the LRU half; the hit on key 2 leaves them at (2, 0).\<close>

lemma ArcCache_refused_shift:
  "(case do { c0 \<leftarrow> ArcCache_new (0::int) [] 1 2;
              c1 \<leftarrow> ArcCache_put 1 ''a'' c0;
              c2 \<leftarrow> ArcCache_put 2 ''b'' c1;
              c3 \<leftarrow> ArcCache_put 1 ''a'' c2;
              c4 \<leftarrow> ArcCache_put 3 ''c'' c3;
              (g, c5) \<leftarrow> ArcCache_checkGhostCaches 2 c4;
              Some (c4, g, c5) } of
      None \<Rightarrow> False
    | Some (c4, g, c5) \<Rightarrow>
        g \<and> alru_ghost (arc_lruPart c4) = [2]
        \<and> (ArcCache_lruCapacity c4, ArcCache_lfuCapacity c4) = (2, 0)
        \<and> (ArcCache_lruCapacity c5, ArcCache_lfuCapacity c5) = (2, 0))"
  by (simp add: arc_defs)


text \<open>Witness for claim C4: the cache after \<^verbatim>\<open>put(1,"a"); put(2,"b"); put(3,"c")\<close> with
  capacity 2 and threshold 2, where key 1 is in the ghost list of the LRU half. Each of
  the three calls returns; the capacities go from (2, 2) to (3, 1) and their sum stays
  4.\<close>

theorem ArcCache_capacity_sum_preserved_witness:
  "ArcCache_checkGhostCaches 1 arc_three_puts = Some (True, arc_after_ghost_hit)
   \<and> ArcCache_put 1 ''a'' arc_three_puts
       = Some (arc_after_ghost_hit\<lparr>arc_lruPart := (arc_lruPart arc_after_ghost_hit)
            \<lparr>alru_main := [(2, ''b'', 1), (3, ''c'', 1), (1, ''a'', 1)]\<rparr>\<rparr>)
   \<and> ArcCache_get 1 ''z'' arc_three_puts = Some (False, ''z'', arc_after_ghost_hit)
   \<and> ArcCache_total arc_three_puts = 4
   \<and> ArcCache_capacitySum arc_three_puts = 4
   \<and> ArcCache_lruCapacity arc_after_ghost_hit = 3
   \<and> ArcCache_lfuCapacity arc_after_ghost_hit = 1"
  using ArcCache_capacity_sum_preserved
    [where key = 1 and c = arc_three_puts and inGhost = True
       and afterCheck = arc_after_ghost_hit and v = "''a''"
       and afterPut = "arc_after_ghost_hit\<lparr>arc_lruPart := (arc_lruPart arc_after_ghost_hit)
            \<lparr>alru_main := [(2, ''b'', 1), (3, ''c'', 1), (1, ''a'', 1)]\<rparr>\<rparr>"
       and out = "''z''" and found = False and w = "''z''"
       and afterGet = arc_after_ghost_hit]
  by (simp add: arc_three_puts_def arc_after_ghost_hit_def arc_defs)

end
